theory Spec2Isabelle
  imports Main "HOL-Library.Word" "HOL-Library.Sublist" "HOL-Library.AList"
    "HOL-Library.Char_ord" "HOL-Library.List_Lexorder"
begin

section \<open>Go values: bytes, errors, formatting\<close>

type_synonym byte = "8 word"

text \<open>
  \<open>syscall.Errno\<close> values. \<open>ENOENT\<close> is the one \<open>os.IsNotExist\<close> recognises; the
  faults an existing path can produce are kept in a type of their own.
\<close>

datatype io_fault = EACCES | EIO | ENOSPC | EROFS | EISDIR

datatype errno = ENOENT | Errno io_fault

text \<open>
  Go \<open>error\<close> values, by dynamic type: \<open>errors.New\<close> and \<open>fmt.Errorf\<close> without
  \<open>%w\<close> give an \<open>*errors.errorString\<close>; \<open>fmt.Errorf\<close> with \<open>%w\<close> gives a
  \<open>*fmt.wrapError\<close> holding the formatted message and the wrapped error; the \<open>os\<close>
  package returns \<open>*fs.PathError\<close> and \<open>*os.LinkError\<close>; \<open>encoding/json\<close> returns
  a \<open>*json.SyntaxError\<close> or a \<open>*json.UnmarshalTypeError\<close> when it decodes and a
  \<open>*json.MarshalerError\<close> when it encodes (each kept with its message; for the last
  one, the message of the error of \<open>MarshalJSON\<close>); \<open>time.Parse\<close> returns a
  \<open>*time.ParseError\<close>; \<open>fs.ErrNotExist\<close> is the sentinel.
\<close>

datatype go_error =
    ErrorString string
  | WrapError string go_error
  | PathError string string errno
  | LinkError string string string errno
  | SyntaxError string
  | UnmarshalTypeError string
  | MarshalerError string
  | ParseError string
  | ErrNotExist

fun errno_Error :: "errno \<Rightarrow> string" where
  "errno_Error ENOENT = ''no such file or directory''"
| "errno_Error (Errno EACCES) = ''permission denied''"
| "errno_Error (Errno EIO) = ''input/output error''"
| "errno_Error (Errno ENOSPC) = ''no space left on device''"
| "errno_Error (Errno EROFS) = ''read-only file system''"
| "errno_Error (Errno EISDIR) = ''is a directory''"

text \<open>The \<open>Error()\<close> method.\<close>

fun Error :: "go_error \<Rightarrow> string" where
  "Error (ErrorString s) = s"
| "Error (WrapError s e) = s"
| "Error (PathError op' path e) = op' @ '' '' @ path @ '': '' @ errno_Error e"
| "Error (LinkError op' old new e) = op' @ '' '' @ old @ '' '' @ new @ '': '' @ errno_Error e"
| "Error (SyntaxError s) = s"
| "Error (UnmarshalTypeError s) = s"
| "Error (MarshalerError s) = ''json: error calling MarshalJSON for type time.Time: '' @ s"
| "Error (ParseError s) = s"
| "Error ErrNotExist = ''file does not exist''"

text \<open>
  \<open>os.IsNotExist\<close>: looks through \<open>PathError\<close> and \<open>LinkError\<close> only (it predates
  error wrapping and does not call \<open>Unwrap\<close>).
\<close>

fun os_IsNotExist :: "go_error \<Rightarrow> bool" where
  "os_IsNotExist (PathError op' path e) = (e = ENOENT)"
| "os_IsNotExist (LinkError op' old new e) = (e = ENOENT)"
| "os_IsNotExist ErrNotExist = True"
| "os_IsNotExist (ErrorString s) = False"
| "os_IsNotExist (WrapError s e) = False"
| "os_IsNotExist (SyntaxError s) = False"
| "os_IsNotExist (UnmarshalTypeError s) = False"
| "os_IsNotExist (MarshalerError s) = False"
| "os_IsNotExist (ParseError s) = False"

text \<open>
  A run-time panic, by its cause, and the outcome of a call that can end in one. No
  function of the service recovers from a panic: it passes through every caller, running
  the deferred calls on its way.
\<close>

datatype go_panic =
    NilMapAssignment
  | NilPointerDereference
  | MakesliceCapOutOfRange
  | SliceBoundsOutOfRange

datatype 'a outcome = Panicked go_panic | Returned 'a

text \<open>\<open>fmt.Errorf(prefix + "%w", err)\<close> and \<open>fmt.Errorf(prefix + "%s", s)\<close>.\<close>

definition Errorf_w :: "string \<Rightarrow> go_error \<Rightarrow> go_error" where
  "Errorf_w pre err = WrapError (pre @ Error err) err"

definition Errorf_s :: "string \<Rightarrow> string \<Rightarrow> go_error" where
  "Errorf_s pre s = ErrorString (pre @ s)"

text \<open>The verbs \<open>%d\<close> and \<open>%02d\<close> of \<open>fmt\<close>.\<close>

definition digit_char :: "nat \<Rightarrow> char" where
  "digit_char n = ''0123456789'' ! (n mod 10)"

fun nat_digits :: "nat \<Rightarrow> string" where
  "nat_digits n = (if n < 10 then [digit_char n] else nat_digits (n div 10) @ [digit_char n])"

declare nat_digits.simps [simp del]

definition fmt_d :: "int \<Rightarrow> string" where
  "fmt_d i = (if i < 0 then ''-'' @ nat_digits (nat (- i)) else nat_digits (nat i))"

definition fmt_02d :: "int \<Rightarrow> string" where
  "fmt_02d i =
     (if i < 0 then ''-'' @ replicate (1 - length (nat_digits (nat (- i)))) CHR ''0'' @ nat_digits (nat (- i))
      else replicate (2 - length (nat_digits (nat i))) CHR ''0'' @ nat_digits (nat i))"

section \<open>Content sniffing (service/image\_processor.go)\<close>

text \<open>\<open>ValidateMimeType\<close>: a linear search of the allow-list.\<close>

fun ValidateMimeType :: "string \<Rightarrow> string list \<Rightarrow> bool" where
  "ValidateMimeType mimeType [] = False"
| "ValidateMimeType mimeType (t # allowedTypes) =
     (if t = mimeType then True else ValidateMimeType mimeType allowedTypes)"

text \<open>\<open>detectMimeFromHeader\<close>: every index is read behind the length test that guards it.\<close>

definition detectMimeFromHeader :: "byte list \<Rightarrow> string" where
  "detectMimeFromHeader header =
     (if length header < 4 then ''application/octet-stream''
      else if header ! 0 = 0xFF \<and> header ! 1 = 0xD8 \<and> header ! 2 = 0xFF then ''image/jpeg''
      else if length header \<ge> 8 \<and>
              header ! 0 = 0x89 \<and> header ! 1 = 0x50 \<and> header ! 2 = 0x4E \<and> header ! 3 = 0x47 \<and>
              header ! 4 = 0x0D \<and> header ! 5 = 0x0A \<and> header ! 6 = 0x1A \<and> header ! 7 = 0x0A
           then ''image/png''
      else if length header \<ge> 12 \<and>
              header ! 0 = 0x52 \<and> header ! 1 = 0x49 \<and> header ! 2 = 0x46 \<and> header ! 3 = 0x46 \<and>
              header ! 8 = 0x57 \<and> header ! 9 = 0x45 \<and> header ! 10 = 0x42 \<and> header ! 11 = 0x50
           then ''image/webp''
      else ''application/octet-stream'')"

section \<open>Data model (model/image.go, model/response.go)\<close>

text \<open>
  A \<open>time.Time\<close>: the instant, in nanoseconds since the epoch, the calendar year and
  month that \<open>Year()\<close> and \<open>Month()\<close> report for it, and the hours of its zone offset
  (in absolute value).
\<close>

record Time =
  unix_nano :: int
  Year :: int
  Month :: int
  ZoneHour :: nat

definition After :: "Time \<Rightarrow> Time \<Rightarrow> bool" where
  "After t u = (unix_nano t > unix_nano u)"

record Image =
  ID :: string
  URL :: string
  OriginalFormat :: string
  OriginalSize :: int
  ProcessedSize :: int
  Width :: int
  Height :: int
  CreatedAt :: Time
  Filename :: string
  StoragePath :: string

record ImageListItem =
  item_ID :: string
  item_URL :: string
  item_ThumbnailURL :: string
  item_OriginalFormat :: string
  item_ProcessedSize :: int
  item_Width :: int
  item_Height :: int
  item_CreatedAt :: Time

record UploadResult =
  res_ID :: string
  res_URL :: string
  res_OriginalFormat :: string
  res_OriginalSize :: int
  res_ProcessedSize :: int
  res_Width :: int
  res_Height :: int
  res_CreatedAt :: Time

record PaginatedList =
  Items :: "ImageListItem list"
  Total :: int
  Page :: int
  PageSize :: int
  TotalPages :: int

definition CodeInternalError :: int where "CodeInternalError = 500"
definition CodeInvalidFileType :: int where "CodeInvalidFileType = 1001"
definition CodeFileTooLarge :: int where "CodeFileTooLarge = 1002"
definition CodeProcessingFailed :: int where "CodeProcessingFailed = 1003"
definition CodeStorageFailed :: int where "CodeStorageFailed = 1004"

section \<open>The environment: files, and the calls the service makes\<close>

text \<open>
  The metadata file as \<open>encoding/json\<close> sees it when it unmarshals into
  \<open>map[string]*model.Image\<close>; the entries of an object are in the order of the text, an
  entry whose value is \<open>null\<close> is \<open>None\<close>, and any other is the record as decoded.

  \<^item> \<open>JsonNull\<close> is the value \<open>null\<close>.
  \<^item> \<open>JsonTable es\<close> is an object that decodes without error.
  \<^item> \<open>BadSyntax msg\<close> is content that is not JSON (a file that is empty or breaks off,
    for one).
  \<^item> \<open>BadType msg\<close> is a JSON value that is neither \<open>null\<close> nor an object.
  \<^item> \<open>BadValue es msg\<close> is an object with a value of the wrong type somewhere in it:
    decoding goes on to the end and then reports the first such value; \<open>es\<close> are all the
    entries, those with the wrong values in them included.
  \<^item> \<open>BadTime es cause\<close> is an object with a creation time that
    \<open>Time.UnmarshalJSON\<close> refuses: decoding stops there; \<open>es\<close> are the entries before the
    one refused, and \<open>cause\<close> is the message of the \<open>*time.ParseError\<close>, or \<open>None\<close> when
    the value is not a string.
\<close>

datatype file_data =
    JsonNull
  | JsonTable "(string \<times> Image option) list"
  | BadSyntax string
  | BadType string
  | BadValue "(string \<times> Image option) list" string
  | BadTime "(string \<times> Image option) list" "string option"

text \<open>
  Every call that leaves the service is recorded, in order: the mutex of the metadata
  store, the \<open>os\<close> calls, the storage backend, the codecs, and \<open>log.Printf\<close> (which only
  \<open>main\<close> and the middleware call).
\<close>

datatype event =
    MuLock | MuUnlock
  | OsReadFile string | OsWriteFile string | OsRename string string | OsRemove string
  | StorageSave string | StorageDelete string
  | Decode string | ExifDecode | EncodeWebP
  | LogPrintf string

text \<open>
  The file system holds the files by path; a read of an existing file, a write and a
  rename can fail with the fault the environment has in store for that path.
\<close>

record Sys =
  files :: "string \<Rightarrow> file_data option"
  read_fault :: "string \<Rightarrow> io_fault option"
  write_fault :: "string \<Rightarrow> io_fault option"
  rename_fault :: "string \<Rightarrow> io_fault option"
  trace :: "event list"

definition emit :: "event \<Rightarrow> Sys \<Rightarrow> Sys" where
  "emit e sys = sys\<lparr>trace := trace sys @ [e]\<rparr>"

text \<open>
  \<open>os.ReadFile\<close> opens the file and then reads it: a missing file and a refused
  permission fail in \<open>open\<close>, the other faults in \<open>read\<close>.
\<close>

definition os_ReadFile :: "string \<Rightarrow> Sys \<Rightarrow> Sys \<times> (go_error + file_data)" where
  "os_ReadFile name sys =
     (emit (OsReadFile name) sys,
      case files sys name of
        None \<Rightarrow> Inl (PathError ''open'' name ENOENT)
      | Some d \<Rightarrow>
          (case read_fault sys name of
             Some f \<Rightarrow> Inl (PathError (if f = EACCES then ''open'' else ''read'') name (Errno f))
           | None \<Rightarrow> Inr d))"

text \<open>
  \<open>os.WriteFile\<close> opens the file, creating or truncating it, and then writes. A fault
  of \<open>open\<close> leaves the path as it was; a fault of \<open>write\<close> leaves a file there that breaks
  off.
\<close>

definition open_fault :: "io_fault \<Rightarrow> bool" where
  "open_fault f \<longleftrightarrow> f = EACCES \<or> f = EROFS \<or> f = EISDIR"

definition os_WriteFile :: "string \<Rightarrow> file_data \<Rightarrow> Sys \<Rightarrow> Sys \<times> go_error option" where
  "os_WriteFile name d sys =
     (case write_fault sys name of
        Some f \<Rightarrow>
          (if open_fault f then (emit (OsWriteFile name) sys, Some (PathError ''open'' name (Errno f)))
           else (emit (OsWriteFile name)
                   (sys\<lparr>files := (files sys)(name \<mapsto> BadSyntax ''unexpected end of JSON input'')\<rparr>),
                 Some (PathError ''write'' name (Errno f))))
      | None \<Rightarrow> (emit (OsWriteFile name) (sys\<lparr>files := (files sys)(name \<mapsto> d)\<rparr>), None))"

definition os_Rename :: "string \<Rightarrow> string \<Rightarrow> Sys \<Rightarrow> Sys \<times> go_error option" where
  "os_Rename old new sys =
     (case rename_fault sys old of
        Some f \<Rightarrow> (emit (OsRename old new) sys, Some (LinkError ''rename'' old new (Errno f)))
      | None \<Rightarrow>
          (case files sys old of
             None \<Rightarrow> (emit (OsRename old new) sys, Some (LinkError ''rename'' old new ENOENT))
           | Some d \<Rightarrow>
               (emit (OsRename old new) (sys\<lparr>files := (files sys)(old := None, new \<mapsto> d)\<rparr>), None)))"

text \<open>\<open>os.Remove\<close>, whose result \<open>saveLocked\<close> drops.\<close>

definition os_Remove :: "string \<Rightarrow> Sys \<Rightarrow> Sys" where
  "os_Remove name sys = emit (OsRemove name) (sys\<lparr>files := (files sys)(name := None)\<rparr>)"

section \<open>ImageProcessor (service/image\_processor.go)\<close>

text \<open>
  The codec libraries the processor calls (\<open>image/jpeg\<close>, \<open>image/png\<close>,
  \<open>golang.org/x/image/webp\<close>, \<open>goexif\<close>, \<open>imaging\<close>, \<open>chai2010/webp\<close>) are
  parameters: \<open>'img\<close> is \<open>image.Image\<close>, \<open>'exif\<close> is \<open>*exif.Exif\<close> and \<open>'tag\<close> is
  \<open>*tiff.Tag\<close>. \<open>exif_Get_Orientation\<close> is \<open>x.Get(exif.Orientation)\<close> and
  \<open>tag_Int0\<close> is \<open>tag.Int(0)\<close>.
\<close>

record ('img, 'exif, 'tag) Libs =
  jpeg_Decode :: "byte list \<Rightarrow> go_error + 'img"
  png_Decode :: "byte list \<Rightarrow> go_error + 'img"
  xwebp_Decode :: "byte list \<Rightarrow> go_error + 'img"
  exif_Decode :: "byte list \<Rightarrow> go_error + 'exif"
  exif_Get_Orientation :: "'exif \<Rightarrow> go_error + 'tag"
  tag_Int0 :: "'tag \<Rightarrow> go_error + int"
  imaging_FlipH :: "'img \<Rightarrow> 'img"
  imaging_Rotate180 :: "'img \<Rightarrow> 'img"
  imaging_FlipV :: "'img \<Rightarrow> 'img"
  imaging_Transpose :: "'img \<Rightarrow> 'img"
  imaging_Rotate270 :: "'img \<Rightarrow> 'img"
  imaging_Transverse :: "'img \<Rightarrow> 'img"
  imaging_Rotate90 :: "'img \<Rightarrow> 'img"
  webp_Encode :: "'img \<Rightarrow> int \<Rightarrow> go_error + byte list"
  Bounds_Dx :: "'img \<Rightarrow> int"
  Bounds_Dy :: "'img \<Rightarrow> int"

record ImageProcessor =
  quality :: int

definition NewImageProcessor :: "int \<Rightarrow> ImageProcessor" where
  "NewImageProcessor q = \<lparr>quality = (if q < 1 \<or> q > 100 then 75 else q)\<rparr>"

record ProcessResult =
  pr_Data :: "byte list"
  pr_Width :: int
  pr_Height :: int
  pr_Format :: string

text \<open>\<open>decodeImage\<close> returns the image, the format name and the error.\<close>

definition decodeImage ::
  "('img, 'exif, 'tag) Libs \<Rightarrow> byte list \<Rightarrow> string \<Rightarrow> Sys \<Rightarrow> Sys \<times> (go_error + 'img) \<times> string" where
  "decodeImage L data mimeType sys =
     (if mimeType = ''image/jpeg'' then (emit (Decode ''jpeg'') sys, jpeg_Decode L data, ''jpeg'')
      else if mimeType = ''image/png'' then (emit (Decode ''png'') sys, png_Decode L data, ''png'')
      else if mimeType = ''image/webp'' then (emit (Decode ''webp'') sys, xwebp_Decode L data, ''webp'')
      else (sys, Inl (Errorf_s ''unsupported image type: '' mimeType), []))"

text \<open>
  \<open>fixOrientation\<close>: each of the three reads of the EXIF data can fail, and each
  failure returns the image as decoded.
\<close>

definition fixOrientation ::
  "('img, 'exif, 'tag) Libs \<Rightarrow> byte list \<Rightarrow> 'img \<Rightarrow> 'img" where
  "fixOrientation L data img =
     (case exif_Decode L data of
        Inl err \<Rightarrow> img
      | Inr x \<Rightarrow>
          (case exif_Get_Orientation L x of
             Inl err \<Rightarrow> img
           | Inr orientTag \<Rightarrow>
               (case tag_Int0 L orientTag of
                  Inl err \<Rightarrow> img
                | Inr orient \<Rightarrow>
                    (if orient = 2 then imaging_FlipH L img
                     else if orient = 3 then imaging_Rotate180 L img
                     else if orient = 4 then imaging_FlipV L img
                     else if orient = 5 then imaging_Transpose L img
                     else if orient = 6 then imaging_Rotate270 L img
                     else if orient = 7 then imaging_Transverse L img
                     else if orient = 8 then imaging_Rotate90 L img
                     else img))))"

definition encodeWebP ::
  "('img, 'exif, 'tag) Libs \<Rightarrow> ImageProcessor \<Rightarrow> 'img \<Rightarrow> Sys \<Rightarrow> Sys \<times> (go_error + byte list)" where
  "encodeWebP L p img sys = (emit EncodeWebP sys, webp_Encode L img (quality p))"

definition Process ::
  "('img, 'exif, 'tag) Libs \<Rightarrow> ImageProcessor \<Rightarrow> byte list \<Rightarrow> string \<Rightarrow> Sys
     \<Rightarrow> Sys \<times> (go_error + ProcessResult)" where
  "Process L p data mimeType sys =
     (case decodeImage L data mimeType sys of
        (sys1, Inl err, format) \<Rightarrow> (sys1, Inl (Errorf_w ''failed to decode image: '' err))
      | (sys1, Inr img0, format) \<Rightarrow>
          (let (sys2, img) =
                 (if format = ''jpeg'' then (emit ExifDecode sys1, fixOrientation L data img0)
                  else (sys1, img0))
           in case encodeWebP L p img sys2 of
                (sys3, Inl err) \<Rightarrow> (sys3, Inl (Errorf_w ''failed to encode webp: '' err))
              | (sys3, Inr webpData) \<Rightarrow>
                  (sys3, Inr \<lparr>pr_Data = webpData, pr_Width = Bounds_Dx L img,
                              pr_Height = Bounds_Dy L img, pr_Format = ''webp''\<rparr>)))"

section \<open>MetadataStore (service/image\_service.go)\<close>

text \<open>
  The table \<open>images\<close> is a Go \<open>map[string]*model.Image\<close>: it can be the nil map
  (\<open>None\<close>), and an entry can hold the nil pointer (\<open>None\<close>). A map that is not nil is
  kept as an association list with one entry per key (\<open>AList.update\<close> replaces in place,
  \<open>AList.delete\<close> removes). \<open>locked\<close> is the state of the mutex \<open>mu\<close>.
\<close>

type_synonym table = "(string \<times> Image option) list option"

record MetadataStore =
  locked :: bool
  images :: table
  filePath :: string

text \<open>
  \<open>s.mu.Lock(); defer s.mu.Unlock()\<close> around a method body. \<open>Lock\<close> on a mutex that is
  held never returns in a single thread of control: the result is \<open>None\<close>. The deferred
  \<open>Unlock\<close> runs when the body returns and when it panics.
\<close>

definition with_mu ::
  "(MetadataStore \<Rightarrow> Sys \<Rightarrow> MetadataStore \<times> Sys \<times> 'a) \<Rightarrow> MetadataStore \<Rightarrow> Sys
     \<Rightarrow> (MetadataStore \<times> Sys \<times> 'a) option" where
  "with_mu body s sys =
     (if locked s then None
      else (case body (s\<lparr>locked := True\<rparr>) (emit MuLock sys) of
              (s1, sys1, r) \<Rightarrow> Some (s1\<lparr>locked := False\<rparr>, emit MuUnlock sys1, r)))"

text \<open>
  \<open>Time.MarshalJSON\<close> refuses a time whose year is not of four digits or whose zone
  offset is of a day or more; the result is the message of its error.
\<close>

definition Time_MarshalJSON_error :: "Time \<Rightarrow> string option" where
  "Time_MarshalJSON_error t =
     (if Year t < 0 \<or> Year t > 9999 then Some ''Time.MarshalJSON: year outside of range [0,9999]''
      else if ZoneHour t \<ge> 24 then Some ''Time.MarshalJSON: timezone hour outside of range [0,23]''
      else None)"

text \<open>
  \<open>encoding/json\<close> writes a string coerced to valid UTF-8: every byte that does not
  start a well-formed encoding of a code point is replaced by the encoding of U+FFFD.
  \<open>rune_size\<close> is the length that the first byte of an encoding announces (0 for a byte
  that cannot start one), \<open>second_ok\<close> the range of the second byte, which depends on
  the first, and \<open>continuation\<close> the range of the bytes after it.
\<close>

definition rune_size :: "char \<Rightarrow> nat" where
  "rune_size c =
     (let b = (of_char c :: nat)
      in if b < 0x80 then 1
         else if 0xC2 \<le> b \<and> b \<le> 0xDF then 2
         else if 0xE0 \<le> b \<and> b \<le> 0xEF then 3
         else if 0xF0 \<le> b \<and> b \<le> 0xF4 then 4
         else 0)"

definition continuation :: "char \<Rightarrow> bool" where
  "continuation c \<longleftrightarrow> 0x80 \<le> (of_char c :: nat) \<and> (of_char c :: nat) \<le> 0xBF"

definition second_ok :: "char \<Rightarrow> char \<Rightarrow> bool" where
  "second_ok c0 c1 =
     (let b0 = (of_char c0 :: nat); b1 = (of_char c1 :: nat)
      in if b0 = 0xE0 then 0xA0 \<le> b1 \<and> b1 \<le> 0xBF
         else if b0 = 0xED then 0x80 \<le> b1 \<and> b1 \<le> 0x9F
         else if b0 = 0xF0 then 0x90 \<le> b1 \<and> b1 \<le> 0xBF
         else if b0 = 0xF4 then 0x80 \<le> b1 \<and> b1 \<le> 0x8F
         else 0x80 \<le> b1 \<and> b1 \<le> 0xBF)"

definition valid_rune :: "string \<Rightarrow> bool" where
  "valid_rune s =
     (case s of
        [] \<Rightarrow> False
      | c0 # rest \<Rightarrow>
          rune_size c0 = 1 \<or>
          (2 \<le> rune_size c0 \<and> rune_size c0 - 1 \<le> length rest \<and> second_ok c0 (hd rest) \<and>
           list_all continuation (take (rune_size c0 - 2) (tl rest))))"

text \<open>\<open>coerce_from k s\<close> copies the first \<open>k\<close> bytes, which end an encoding found well-formed.\<close>

fun coerce_from :: "nat \<Rightarrow> string \<Rightarrow> string" where
  "coerce_from k [] = []"
| "coerce_from (Suc k) (c # cs) = c # coerce_from k cs"
| "coerce_from 0 (c # cs) =
     (if valid_rune (c # cs) then c # coerce_from (rune_size c - 1) cs
      else [CHR 0xEF, CHR 0xBF, CHR 0xBD] @ coerce_from 0 cs)"

definition ToValidUTF8 :: "string \<Rightarrow> string" where
  "ToValidUTF8 s = coerce_from 0 s"

text \<open>
  \<open>json.MarshalIndent\<close> of the table. The nil map is written as \<open>null\<close>. The entries of
  a map are written in the order of their keys, a nil pointer as \<open>null\<close>, and the first
  record whose creation time does not marshal ends the encoding with a
  \<open>MarshalerError\<close>. The field \<open>StoragePath\<close> carries the tag \<open>json:"-"\<close> and is not
  written. \<open>as_written e\<close> is what a reader of the file decodes for the entry \<open>e\<close>.
\<close>

fun first_marshal_error :: "(string \<times> Image option) list \<Rightarrow> string option" where
  "first_marshal_error [] = None"
| "first_marshal_error ((k, None) # es) = first_marshal_error es"
| "first_marshal_error ((k, Some img) # es) =
     (case Time_MarshalJSON_error (CreatedAt img) of
        Some msg \<Rightarrow> Some msg
      | None \<Rightarrow> first_marshal_error es)"

definition as_written :: "string \<times> Image option \<Rightarrow> string \<times> Image option" where
  "as_written e =
     (ToValidUTF8 (fst e),
      map_option (\<lambda>img. img\<lparr>ID := ToValidUTF8 (ID img), URL := ToValidUTF8 (URL img),
                            OriginalFormat := ToValidUTF8 (OriginalFormat img),
                            Filename := ToValidUTF8 (Filename img), StoragePath := []\<rparr>) (snd e))"

definition json_MarshalIndent :: "table \<Rightarrow> go_error + file_data" where
  "json_MarshalIndent tbl =
     (case tbl of
        None \<Rightarrow> Inr JsonNull
      | Some t \<Rightarrow>
          (case first_marshal_error (sort_key fst t) of
             Some msg \<Rightarrow> Inl (MarshalerError msg)
           | None \<Rightarrow> Inr (JsonTable (map as_written (sort_key fst t)))))"

text \<open>
  \<open>json.Unmarshal\<close> into the table. \<open>null\<close> sets the map to nil. For an object, a new
  map is made when the map is nil, and the entries are stored one by one under their
  keys, beside the entries the map already has; \<open>StoragePath\<close> is left empty in every
  record decoded. Content that is not JSON is refused before anything is stored, and a
  value that is not an object is skipped. The error of a value of the wrong type inside
  an object is returned once everything has been stored; the error of
  \<open>Time.UnmarshalJSON\<close> is returned at once.
\<close>

definition store_entries ::
  "(string \<times> Image option) list \<Rightarrow> (string \<times> Image option) list \<Rightarrow> (string \<times> Image option) list" where
  "store_entries es t =
     foldl (\<lambda>t e. AList.update (fst e) (map_option (\<lambda>img. img\<lparr>StoragePath := []\<rparr>) (snd e)) t) t es"

definition made :: "table \<Rightarrow> (string \<times> Image option) list" where
  "made tbl = (case tbl of None \<Rightarrow> [] | Some t \<Rightarrow> t)"

fun Time_UnmarshalJSON_error :: "string option \<Rightarrow> go_error" where
  "Time_UnmarshalJSON_error None = ErrorString ''Time.UnmarshalJSON: input is not a JSON string''"
| "Time_UnmarshalJSON_error (Some msg) = ParseError msg"

fun json_Unmarshal :: "file_data \<Rightarrow> table \<Rightarrow> table \<times> go_error option" where
  "json_Unmarshal JsonNull tbl = (None, None)"
| "json_Unmarshal (JsonTable es) tbl = (Some (store_entries es (made tbl)), None)"
| "json_Unmarshal (BadSyntax msg) tbl = (tbl, Some (SyntaxError msg))"
| "json_Unmarshal (BadType msg) tbl = (tbl, Some (UnmarshalTypeError msg))"
| "json_Unmarshal (BadValue es msg) tbl =
     (Some (store_entries es (made tbl)), Some (UnmarshalTypeError msg))"
| "json_Unmarshal (BadTime es cause) tbl =
     (Some (store_entries es (made tbl)), Some (Time_UnmarshalJSON_error cause))"

definition loadLocked :: "MetadataStore \<Rightarrow> Sys \<Rightarrow> MetadataStore \<times> Sys \<times> go_error option" where
  "loadLocked s sys =
     (case os_ReadFile (filePath s) sys of
        (sys1, Inl err) \<Rightarrow> (s, sys1, Some err)
      | (sys1, Inr data) \<Rightarrow>
          (case json_Unmarshal data (images s) of
             (tbl, r) \<Rightarrow> (s\<lparr>images := tbl\<rparr>, sys1, r)))"

definition load :: "MetadataStore \<Rightarrow> Sys \<Rightarrow> (MetadataStore \<times> Sys \<times> go_error option) option" where
  "load = with_mu loadLocked"

text \<open>
  \<open>saveLocked\<close>: marshal the table, write it whole to \<open>filePath + ".tmp"\<close>, then
  rename that over \<open>filePath\<close>; a failed rename removes the temporary file.
\<close>

definition saveLocked :: "MetadataStore \<Rightarrow> Sys \<Rightarrow> Sys \<times> go_error option" where
  "saveLocked s sys =
     (case json_MarshalIndent (images s) of
        Inl err \<Rightarrow> (sys, Some err)
      | Inr data \<Rightarrow>
     (let tmpFile = filePath s @ ''.tmp''
      in case os_WriteFile tmpFile data sys of
           (sys1, Some err) \<Rightarrow> (sys1, Some err)
         | (sys1, None) \<Rightarrow>
             (case os_Rename tmpFile (filePath s) sys1 of
                (sys2, Some err) \<Rightarrow> (os_Remove tmpFile sys2, Some err)
              | (sys2, None) \<Rightarrow> (sys2, None))))"

text \<open>
  \<open>Add\<close> takes a pointer: reading \<open>img.ID\<close> through the nil pointer panics, and so does
  the assignment \<open>s.images[img.ID] = img\<close> when the map is nil. In both cases nothing has
  been changed or written.
\<close>

definition MetadataStore_Add ::
  "Image option \<Rightarrow> MetadataStore \<Rightarrow> Sys \<Rightarrow> (MetadataStore \<times> Sys \<times> go_error option outcome) option" where
  "MetadataStore_Add img =
     with_mu (\<lambda>s sys.
       case img of
         None \<Rightarrow> (s, sys, Panicked NilPointerDereference)
       | Some i \<Rightarrow>
           (case images s of
              None \<Rightarrow> (s, sys, Panicked NilMapAssignment)
            | Some t \<Rightarrow>
                (let s1 = s\<lparr>images := Some (AList.update (ID i) (Some i) t)\<rparr>
                 in case saveLocked s1 sys of (sys1, r) \<Rightarrow> (s1, sys1, Returned r))))"

text \<open>\<open>Delete\<close>: \<open>delete\<close> on the nil map does nothing, and never panics.\<close>

definition MetadataStore_Delete ::
  "string \<Rightarrow> MetadataStore \<Rightarrow> Sys \<Rightarrow> (MetadataStore \<times> Sys \<times> go_error option outcome) option" where
  "MetadataStore_Delete id' =
     with_mu (\<lambda>s sys.
       let s1 = s\<lparr>images := map_option (AList.delete id') (images s)\<rparr>
       in case saveLocked s1 sys of (sys1, r) \<Rightarrow> (s1, sys1, Returned r))"

text \<open>
  \<open>List\<close> copies the records, which panics at a nil pointer, and sorts them with
  \<open>sort.Slice\<close>, newest first. Go fixes neither the order in which a map is walked nor
  the order \<open>sort.Slice\<close> leaves equal elements in; the model walks the table in its own
  order and sorts by insertion.
\<close>

fun copy_all :: "(string \<times> Image option) list \<Rightarrow> Image list outcome" where
  "copy_all [] = Returned []"
| "copy_all ((k, None) # es) = Panicked NilPointerDereference"
| "copy_all ((k, Some img) # es) =
     (case copy_all es of Panicked p \<Rightarrow> Panicked p | Returned imgs \<Rightarrow> Returned (img # imgs))"

fun insert_newest_first :: "Image \<Rightarrow> Image list \<Rightarrow> Image list" where
  "insert_newest_first x [] = [x]"
| "insert_newest_first x (y # ys) =
     (if After (CreatedAt x) (CreatedAt y) then x # y # ys else y # insert_newest_first x ys)"

definition sort_Slice :: "Image list \<Rightarrow> Image list" where
  "sort_Slice xs = foldr insert_newest_first xs []"

definition MetadataStore_List ::
  "MetadataStore \<Rightarrow> Sys \<Rightarrow> (MetadataStore \<times> Sys \<times> Image list outcome) option" where
  "MetadataStore_List =
     with_mu (\<lambda>s sys.
       (s, sys, case copy_all (made (images s)) of
                  Panicked p \<Rightarrow> Panicked p
                | Returned imgs \<Rightarrow> Returned (sort_Slice imgs)))"

text \<open>\<open>Get\<close> copies the record it finds, which panics when the entry is the nil pointer.\<close>

definition MetadataStore_Get ::
  "string \<Rightarrow> MetadataStore \<Rightarrow> Sys \<Rightarrow> (MetadataStore \<times> Sys \<times> Image option outcome) option" where
  "MetadataStore_Get id' =
     with_mu (\<lambda>s sys.
       (s, sys, case map_of (made (images s)) id' of
                  None \<Rightarrow> Returned None
                | Some None \<Rightarrow> Panicked NilPointerDereference
                | Some (Some img) \<Rightarrow> Returned (Some img)))"


definition Reload :: "MetadataStore \<Rightarrow> Sys \<Rightarrow> (MetadataStore \<times> Sys \<times> go_error option) option" where
  "Reload = with_mu loadLocked"

text \<open>
  \<open>NewMetadataStore\<close>; \<open>join\<close> is \<open>filepath.Join\<close>. The store is returned unless the
  load failed with an error that \<open>os.IsNotExist\<close> does not recognise.
\<close>

definition NewMetadataStore ::
  "(string \<Rightarrow> string \<Rightarrow> string) \<Rightarrow> string \<Rightarrow> Sys \<Rightarrow> (Sys \<times> (go_error + MetadataStore)) option" where
  "NewMetadataStore join basePath sys =
     (let store = \<lparr>locked = False, images = Some [], filePath = join basePath ''metadata.json''\<rparr>
      in case load store sys of
           None \<Rightarrow> None
         | Some (s1, sys1, Some err) \<Rightarrow>
             (if \<not> os_IsNotExist err then Some (sys1, Inl err) else Some (sys1, Inr s1))
         | Some (s1, sys1, None) \<Rightarrow> Some (sys1, Inr s1))"

section \<open>ImageService (service/image\_service.go)\<close>

text \<open>
  The \<open>storage.Storage\<close> interface, over the backend's own state \<open>'st\<close>.
  \<open>local_BasePath\<close> is \<open>GetBasePath()\<close> when the dynamic type is
  \<open>*storage.LocalStorage\<close>, and \<open>None\<close> for any other backend.
\<close>

record 'st Storage =
  storage_Save :: "'st \<Rightarrow> string \<Rightarrow> byte list \<Rightarrow> 'st \<times> (go_error + string)"
  storage_Delete :: "'st \<Rightarrow> string \<Rightarrow> 'st \<times> go_error option"
  local_BasePath :: "string option"

record ImageConfig =
  Quality :: int
  MaxSize :: int
  AllowedTypes :: "string list"

record StorageConfig =
  BasePath :: string
  BaseURL :: string

record Config =
  cfg_Storage :: StorageConfig
  cfg_Image :: ImageConfig

record 'st ImageService =
  storage :: "'st Storage"
  processor :: ImageProcessor
  config :: Config

text \<open>
  What the service works on: the state of the storage backend, the metadata store it
  points to, and the environment. The backend keeps its objects in its own state: the
  files of \<open>Sys\<close> are those the metadata store reads and writes.
\<close>

record 'st World =
  backend :: 'st
  metadata :: MetadataStore
  env :: Sys

definition NewImageService ::
  "(string \<Rightarrow> string \<Rightarrow> string) \<Rightarrow> Config \<Rightarrow> 'st Storage \<Rightarrow> 'st \<Rightarrow> Sys
     \<Rightarrow> (Sys \<times> (go_error + 'st ImageService \<times> 'st World)) option" where
  "NewImageService join cfg store b sys0 =
     (let basePath = (case local_BasePath store of Some p \<Rightarrow> p | None \<Rightarrow> BasePath (cfg_Storage cfg))
      in case NewMetadataStore join basePath sys0 of
           None \<Rightarrow> None
         | Some (sys1, Inl err) \<Rightarrow> Some (sys1, Inl (Errorf_w ''failed to create metadata store: '' err))
         | Some (sys1, Inr m) \<Rightarrow>
             Some (sys1, Inr (\<lparr>storage = store, processor = NewImageProcessor (Quality (cfg_Image cfg)),
                                config = cfg\<rparr>,
                              \<lparr>backend = b, metadata = m, env = sys1\<rparr>)))"

text \<open>An \<open>io.Reader\<close> by what \<open>io.ReadAll\<close> gets from it: the bytes, and the error if any.\<close>

datatype Reader = Reader "byte list" "go_error option"

fun io_ReadAll :: "Reader \<Rightarrow> byte list \<times> go_error option" where
  "io_ReadAll (Reader bs err) = (bs, err)"

fun mimeTypeToFormat :: "string \<Rightarrow> string" where
  "mimeTypeToFormat mimeType =
     (if mimeType = ''image/jpeg'' then ''jpeg''
      else if mimeType = ''image/png'' then ''png''
      else if mimeType = ''image/webp'' then ''webp''
      else ''unknown'')"

text \<open>
  \<open>Upload\<close>. \<open>now\<close> is what \<open>time.Now()\<close> returns and \<open>uuid\<close> what
  \<open>uuid.New().String()\<close> returns in this call. A panic of \<open>Add\<close> ends the call where
  it stands.
\<close>

definition Upload ::
  "('img, 'exif, 'tag) Libs \<Rightarrow> 'st ImageService \<Rightarrow> Reader \<Rightarrow> int \<Rightarrow> Time \<Rightarrow> string \<Rightarrow> 'st World
     \<Rightarrow> ('st World \<times> (go_error + UploadResult) outcome) option" where
  "Upload L svc file originalSize now uuid w =
     (case io_ReadAll file of
        (data, Some err) \<Rightarrow> Some (w, Returned (Inl (Errorf_w ''failed to read file: '' err)))
      | (data, None) \<Rightarrow>
     (let mimeType = detectMimeFromHeader data in
      if \<not> ValidateMimeType mimeType (AllowedTypes (cfg_Image (config svc))) then
        Some (w, Returned (Inl (Errorf_s ''invalid file type: '' mimeType)))
      else if int (length data) > MaxSize (cfg_Image (config svc)) then
        Some (w, Returned (Inl (ErrorString (''file too large: '' @ fmt_d (int (length data)) @
                                             '' bytes (max: '' @
                                             fmt_d (MaxSize (cfg_Image (config svc))) @ '')''))))
      else
     (case Process L (processor svc) data mimeType (env w) of
        (sys1, Inl err) \<Rightarrow>
          Some (w\<lparr>env := sys1\<rparr>, Returned (Inl (Errorf_w ''failed to process image: '' err)))
      | (sys1, Inr result) \<Rightarrow>
     (let id' = uuid;
          filename = id' @ ''.webp'';
          storagePath = fmt_d (Year now) @ ''/'' @ fmt_02d (Month now) @ ''/'' @ filename
      in case storage_Save (storage svc) (backend w) storagePath (pr_Data result) of
        (b1, Inl err) \<Rightarrow>
          Some (w\<lparr>backend := b1, env := emit (StorageSave storagePath) sys1\<rparr>,
                Returned (Inl (Errorf_w ''failed to save file: '' err)))
      | (b1, Inr url) \<Rightarrow>
     (let originalFormat = mimeTypeToFormat mimeType;
          img = \<lparr>ID = id', URL = url, OriginalFormat = originalFormat, OriginalSize = originalSize,
                 ProcessedSize = int (length (pr_Data result)), Width = pr_Width result,
                 Height = pr_Height result, CreatedAt = now, Filename = filename,
                 StoragePath = storagePath\<rparr>
      in case MetadataStore_Add (Some img) (metadata w) (emit (StorageSave storagePath) sys1) of
        None \<Rightarrow> None
      | Some (m1, sys2, Panicked p) \<Rightarrow>
          Some (\<lparr>backend = b1, metadata = m1, env = sys2\<rparr>, Panicked p)
      | Some (m1, sys2, Returned (Some err)) \<Rightarrow>
          (case storage_Delete (storage svc) b1 storagePath of
             (b2, dropped) \<Rightarrow>
               Some (\<lparr>backend = b2, metadata = m1, env = emit (StorageDelete storagePath) sys2\<rparr>,
                     Returned (Inl (Errorf_w ''failed to save metadata: '' err))))
      | Some (m1, sys2, Returned None) \<Rightarrow>
          Some (\<lparr>backend = b1, metadata = m1, env = sys2\<rparr>,
                Returned (Inr \<lparr>res_ID = ID img, res_URL = URL img,
                               res_OriginalFormat = OriginalFormat img,
                               res_OriginalSize = OriginalSize img,
                               res_ProcessedSize = ProcessedSize img,
                               res_Width = Width img, res_Height = Height img,
                               res_CreatedAt = CreatedAt img\<rparr>)))))))"

definition GetImage ::
  "'st ImageService \<Rightarrow> string \<Rightarrow> 'st World \<Rightarrow> ('st World \<times> (go_error + Image) outcome) option" where
  "GetImage svc id' w =
     (case MetadataStore_Get id' (metadata w) (env w) of
        None \<Rightarrow> None
      | Some (m1, sys1, Panicked p) \<Rightarrow> Some (w\<lparr>metadata := m1, env := sys1\<rparr>, Panicked p)
      | Some (m1, sys1, Returned None) \<Rightarrow>
          Some (w\<lparr>metadata := m1, env := sys1\<rparr>, Returned (Inl (Errorf_s ''image not found: '' id')))
      | Some (m1, sys1, Returned (Some img)) \<Rightarrow>
          Some (w\<lparr>metadata := m1, env := sys1\<rparr>, Returned (Inr img)))"

text \<open>
  Go's \<open>int\<close> is 64 bits wide on the platforms the server is built for: arithmetic wraps
  around, and \<open>/\<close> and \<open>%\<close> truncate towards zero.
\<close>

definition wrap64 :: "int \<Rightarrow> int" where
  "wrap64 x = (x + 2 ^ 63) mod 2 ^ 64 - 2 ^ 63"

definition go_quot :: "int \<Rightarrow> int \<Rightarrow> int" where
  "go_quot a b = wrap64 (sgn a * sgn b * (\<bar>a\<bar> div \<bar>b\<bar>))"

definition go_rem :: "int \<Rightarrow> int \<Rightarrow> int" where
  "go_rem a b = sgn a * (\<bar>a\<bar> mod \<bar>b\<bar>)"

definition to_item :: "Image \<Rightarrow> ImageListItem" where
  "to_item img =
     \<lparr>item_ID = ID img, item_URL = URL img, item_ThumbnailURL = [],
      item_OriginalFormat = OriginalFormat img, item_ProcessedSize = ProcessedSize img,
      item_Width = Width img, item_Height = Height img, item_CreatedAt = CreatedAt img\<rparr>"

text \<open>
  \<open>ListImages\<close>. \<open>make\<close> panics on a negative capacity, and the slice expression
  \<open>allImages[start:end]\<close> panics unless \<open>0 \<le> start \<le> end \<le> cap(allImages)\<close>; the
  capacity of the list \<open>List\<close> returns is its length.
\<close>

definition ListImages ::
  "'st ImageService \<Rightarrow> int \<Rightarrow> int \<Rightarrow> 'st World \<Rightarrow> ('st World \<times> PaginatedList outcome) option" where
  "ListImages svc page0 pageSize0 w =
     (let page = (if page0 < 1 then 1 else page0);
          pageSize = (if pageSize0 < 1 \<or> pageSize0 > 100 then 20 else pageSize0)
      in case MetadataStore_List (metadata w) (env w) of
        None \<Rightarrow> None
      | Some (m1, sys1, Panicked p) \<Rightarrow> Some (w\<lparr>metadata := m1, env := sys1\<rparr>, Panicked p)
      | Some (m1, sys1, Returned allImages) \<Rightarrow>
     (let w1 = w\<lparr>metadata := m1, env := sys1\<rparr>;
          total = int (length allImages);
          start0 = wrap64 ((page - 1) * pageSize);
          end0 = wrap64 (start0 + pageSize);
          start = (if start0 \<ge> int (length allImages) then int (length allImages) else start0);
          end' = (if end0 > int (length allImages) then int (length allImages) else end0)
      in if wrap64 (end' - start) < 0 then Some (w1, Panicked MakesliceCapOutOfRange)
         else if \<not> (0 \<le> start \<and> start \<le> end' \<and> end' \<le> int (length allImages)) then
           Some (w1, Panicked SliceBoundsOutOfRange)
         else
     (let items = map to_item (take (nat (end' - start)) (drop (nat start) allImages));
          totalPages0 = go_quot total pageSize;
          totalPages = (if go_rem total pageSize > 0 then wrap64 (totalPages0 + 1) else totalPages0)
      in Some (w1, Returned \<lparr>Items = items, Total = total, Page = page, PageSize = pageSize,
                              TotalPages = totalPages\<rparr>))))"

text \<open>\<open>filepath.SplitList\<close> and \<open>filepath.Ext\<close> (Unix).\<close>

fun split_on :: "char \<Rightarrow> string \<Rightarrow> string list" where
  "split_on c [] = [[]]"
| "split_on c (x # xs) =
     (if x = c then [] # split_on c xs
      else (case split_on c xs of [] \<Rightarrow> [[x]] | p # ps \<Rightarrow> (x # p) # ps))"

definition filepath_SplitList :: "string \<Rightarrow> string list" where
  "filepath_SplitList path = (if path = [] then [] else split_on CHR '':'' path)"

text \<open>
  \<open>Ext\<close> walks back from the end of the path and stops at the first separator;
  \<open>ext_scan\<close> is that loop on the reversed path, \<open>acc\<close> being the part walked over.
\<close>

fun ext_scan :: "string \<Rightarrow> string \<Rightarrow> string" where
  "ext_scan [] acc = []"
| "ext_scan (c # rest) acc =
     (if c = CHR ''/'' then []
      else if c = CHR ''.'' then c # acc
      else ext_scan rest (c # acc))"

definition filepath_Ext :: "string \<Rightarrow> string" where
  "filepath_Ext path = ext_scan (rev path) []"

definition isValidStoragePath :: "string \<Rightarrow> bool" where
  "isValidStoragePath path =
     (if path = [] then False
      else if length (filepath_SplitList path) = 0 then False
      else (let ext = filepath_Ext path
            in ext = ''.webp'' \<or> ext = ''.jpg'' \<or> ext = ''.jpeg'' \<or> ext = ''.png''))"

text \<open>The storage key \<open>DeleteImage\<close> works with: the record's, or else what follows
  \<open>/images/\<close> in its URL.\<close>

definition resolved_storagePath :: "Image \<Rightarrow> string" where
  "resolved_storagePath img =
     (if StoragePath img = [] then
        (if URL img \<noteq> [] then
           (let prefix' = ''/images/''
            in if length (URL img) > length prefix' \<and> take (length prefix') (URL img) = prefix'
               then drop (length prefix') (URL img) else [])
         else [])
      else StoragePath img)"

definition DeleteImage ::
  "'st ImageService \<Rightarrow> string \<Rightarrow> 'st World \<Rightarrow> ('st World \<times> go_error option outcome) option" where
  "DeleteImage svc id' w =
     (case MetadataStore_Get id' (metadata w) (env w) of
        None \<Rightarrow> None
      | Some (m1, sys1, Panicked p) \<Rightarrow> Some (w\<lparr>metadata := m1, env := sys1\<rparr>, Panicked p)
      | Some (m1, sys1, Returned None) \<Rightarrow>
          Some (w\<lparr>metadata := m1, env := sys1\<rparr>, Returned (Some (Errorf_s ''image not found: '' id')))
      | Some (m1, sys1, Returned (Some img)) \<Rightarrow>
     (let storagePath = resolved_storagePath img in
      if storagePath = [] \<or> storagePath = ''/'' \<or> \<not> isValidStoragePath storagePath then
        (case MetadataStore_Delete id' m1 sys1 of
           None \<Rightarrow> None
         | Some (m2, sys2, Panicked p) \<Rightarrow> Some (w\<lparr>metadata := m2, env := sys2\<rparr>, Panicked p)
         | Some (m2, sys2, Returned (Some err)) \<Rightarrow>
             Some (w\<lparr>metadata := m2, env := sys2\<rparr>,
                   Returned (Some (Errorf_w ''failed to delete metadata: '' err)))
         | Some (m2, sys2, Returned None) \<Rightarrow> Some (w\<lparr>metadata := m2, env := sys2\<rparr>, Returned None))
      else
     (case storage_Delete (storage svc) (backend w) storagePath of
        (b1, r) \<Rightarrow>
     (let sys2 = emit (StorageDelete storagePath) sys1;
          failed = (case r of Some err \<Rightarrow> if \<not> os_IsNotExist err then Some err else None | None \<Rightarrow> None)
      in case failed of
           Some err \<Rightarrow>
             Some (\<lparr>backend = b1, metadata = m1, env = sys2\<rparr>,
                   Returned (Some (Errorf_w ''failed to delete file: '' err)))
         | None \<Rightarrow>
        (case MetadataStore_Delete id' m1 sys2 of
           None \<Rightarrow> None
         | Some (m3, sys3, Panicked p) \<Rightarrow> Some (\<lparr>backend = b1, metadata = m3, env = sys3\<rparr>, Panicked p)
         | Some (m3, sys3, Returned (Some err)) \<Rightarrow>
             Some (\<lparr>backend = b1, metadata = m3, env = sys3\<rparr>,
                   Returned (Some (Errorf_w ''failed to delete metadata: '' err)))
         | Some (m3, sys3, Returned None) \<Rightarrow>
             Some (\<lparr>backend = b1, metadata = m3, env = sys3\<rparr>, Returned None))))))"

section \<open>The HTTP handler's classification (handler/image\_handler.go)\<close>

function containsImpl_from :: "nat \<Rightarrow> string \<Rightarrow> string \<Rightarrow> bool" where
  "containsImpl_from i s substr =
     (if int i \<le> int (length s) - int (length substr) then
        (if take (length substr) (drop i s) = substr then True
         else containsImpl_from (i + 1) s substr)
      else False)"
  by pat_completeness auto
termination
  by (relation "measure (\<lambda>(i, s, substr). length s + 1 - i)") auto

declare containsImpl_from.simps [simp del]

definition containsImpl :: "string \<Rightarrow> string \<Rightarrow> bool" where
  "containsImpl s substr = containsImpl_from 0 s substr"

definition contains :: "string \<Rightarrow> string \<Rightarrow> bool" where
  "contains s substr =
     (length s \<ge> length substr \<and> (s = substr \<or> length s > 0 \<and> containsImpl s substr))"

text \<open>The error code \<open>ImageHandler.Upload\<close> answers with for an error of \<open>Upload\<close>.\<close>

definition upload_error_code :: "go_error \<Rightarrow> int" where
  "upload_error_code err =
     (let errMsg = Error err
      in if contains errMsg ''invalid file type'' then CodeInvalidFileType
         else if contains errMsg ''file too large'' then CodeFileTooLarge
         else if contains errMsg ''failed to process'' then CodeProcessingFailed
         else if contains errMsg ''failed to save'' then CodeStorageFailed
         else CodeInternalError)"

section \<open>Concrete instances\<close>

text \<open>
  The theorems below hold for every codec library, storage backend, configuration and
  environment. To run them on concrete inputs, this section fixes one small instance of
  each: pixel grids as images, with the seven transformations of \<open>imaging\<close> as list
  operations, and codecs that read two pixels from fixed places of the input.
\<close>

definition grid_Dx :: "byte list list \<Rightarrow> int" where
  "grid_Dx g = (case g of [] \<Rightarrow> 0 | r # rs \<Rightarrow> int (length r))"

definition two_pixels_at :: "nat \<Rightarrow> byte list \<Rightarrow> go_error + byte list list" where
  "two_pixels_at n bs =
     (if length bs \<ge> n + 2 then Inr [[bs ! n, bs ! (n + 1)]] else Inl (ErrorString ''unexpected EOF''))"

definition grid_Libs :: "(byte list list, byte list, byte) Libs" where
  "grid_Libs =
     \<lparr>jpeg_Decode = two_pixels_at 4,
      png_Decode = two_pixels_at 8,
      xwebp_Decode = two_pixels_at 12,
      exif_Decode = (\<lambda>bs. if length bs \<ge> 4 \<and> bs ! 3 = 0xE1 then Inr (drop 6 bs)
                          else Inl (ErrorString ''exif: failed to find exif intro marker'')),
      exif_Get_Orientation = (\<lambda>x. case x of [] \<Rightarrow> Inl (ErrorString ''exif: tag Orientation is not present'')
                                     | b # bs \<Rightarrow> Inr b),
      tag_Int0 = (\<lambda>b. if b = 0xFF then Inl (ErrorString ''tiff: tag is not an integer'') else Inr (uint b)),
      imaging_FlipH = map rev,
      imaging_Rotate180 = (\<lambda>g. rev (map rev g)),
      imaging_FlipV = rev,
      imaging_Transpose = transpose,
      imaging_Rotate270 = (\<lambda>g. map rev (transpose g)),
      imaging_Transverse = (\<lambda>g. rev (map rev (transpose g))),
      imaging_Rotate90 = (\<lambda>g. rev (transpose g)),
      webp_Encode = (\<lambda>g q. Inr (word_of_int q # concat g)),
      Bounds_Dx = grid_Dx,
      Bounds_Dy = (\<lambda>g. int (length g))\<rparr>"

text \<open>
  Modelled from the spec: the package \<open>internal/storage\<close> (the \<open>Storage\<close> interface and
  \<open>LocalStorage\<close>) is not among the sources. \<open>Save\<close> persists the bytes under the key
  and derives the public locator by joining the base URL with the key; \<open>Delete\<close>
  removes by key and reports a "not found" condition for an absent key.
\<close>

definition LocalStorage :: "string \<Rightarrow> string \<Rightarrow> ((string \<times> byte list) list) Storage" where
  "LocalStorage basePath baseURL =
     \<lparr>storage_Save = (\<lambda>st key content. (AList.update key content st, Inr (baseURL @ ''/'' @ key))),
      storage_Delete = (\<lambda>st key. case map_of st key of
                                    None \<Rightarrow> (st, Some (PathError ''remove'' (basePath @ ''/'' @ key) ENOENT))
                                  | Some c \<Rightarrow> (AList.delete key st, None)),
      local_BasePath = Some basePath\<rparr>"

text \<open>A backend on a read-only medium: every \<open>Save\<close> and every \<open>Delete\<close> fails.\<close>

definition ReadOnlyStorage :: "((string \<times> byte list) list) Storage" where
  "ReadOnlyStorage =
     \<lparr>storage_Save = (\<lambda>st key content. (st, Inl (PathError ''open'' key (Errno EROFS)))),
      storage_Delete = (\<lambda>st key. (st, Some (PathError ''remove'' key (Errno EROFS)))),
      local_BasePath = None\<rparr>"

text \<open>\<open>DefaultConfig\<close> of \<open>config/config.go\<close>, and the same with an upload limit of 8 bytes.\<close>

definition DefaultConfig :: Config where
  "DefaultConfig =
     \<lparr>cfg_Storage = \<lparr>BasePath = ''./storage/images'', BaseURL = ''/images''\<rparr>,
      cfg_Image = \<lparr>Quality = 75, MaxSize = 10 * 1024 * 1024,
                   AllowedTypes = [''image/jpeg'', ''image/png'', ''image/webp'']\<rparr>\<rparr>"

definition SmallConfig :: Config where
  "SmallConfig = DefaultConfig\<lparr>cfg_Image := (cfg_Image DefaultConfig)\<lparr>MaxSize := 8\<rparr>\<rparr>"

definition service_with :: "Config \<Rightarrow> 'st Storage \<Rightarrow> 'st ImageService" where
  "service_with cfg store =
     \<lparr>storage = store, processor = NewImageProcessor (Quality (cfg_Image cfg)), config = cfg\<rparr>"

text \<open>An environment with no file and no fault, and one whose disk refuses every write.\<close>

definition empty_Sys :: Sys where
  "empty_Sys = \<lparr>files = Map.empty, read_fault = (\<lambda>p. None), write_fault = (\<lambda>p. None),
                rename_fault = (\<lambda>p. None), trace = []\<rparr>"

definition full_disk_Sys :: Sys where
  "full_disk_Sys = empty_Sys\<lparr>write_fault := (\<lambda>p. Some ENOSPC)\<rparr>"

definition empty_store :: MetadataStore where
  "empty_store = \<lparr>locked = False, images = Some [], filePath = ''./storage/images/metadata.json''\<rparr>"

definition empty_World :: "((string \<times> byte list) list) World" where
  "empty_World = \<lparr>backend = [], metadata = empty_store, env = empty_Sys\<rparr>"

definition noon :: Time where
  "noon = \<lparr>unix_nano = 1733054400000000000, Year = 2024, Month = 12, ZoneHour = 0\<rparr>"

text \<open>Two uploads: nine bytes of no known type, and twelve bytes that start as a JPEG.\<close>

definition junk9 :: "byte list" where
  "junk9 = [1, 2, 3, 4, 5, 6, 7, 8, 9]"

definition jpeg12 :: "byte list" where
  "jpeg12 = [0xFF, 0xD8, 0xFF, 0xE0, 10, 20, 0, 0, 0, 0, 0, 0]"

definition jpeg_rot :: "byte list" where
  "jpeg_rot = [0xFF, 0xD8, 0xFF, 0xE1, 10, 20, 6]"

definition png10 :: "byte list" where
  "png10 = [0x89, 0x50, 0x4E, 0x47, 0x0D, 0x0A, 0x1A, 0x0A, 30, 40]"

definition webp14 :: "byte list" where
  "webp14 = [0x52, 0x49, 0x46, 0x46, 6, 0, 0, 0, 0x57, 0x45, 0x42, 0x50, 50, 60]"

text \<open>A record as \<open>Upload\<close> builds it, and a store that holds it.\<close>

definition photo :: Image where
  "photo = \<lparr>ID = ''a1'', URL = ''/images/2024/12/a1.webp'', OriginalFormat = ''jpeg'',
            OriginalSize = 12, ProcessedSize = 3, Width = 2, Height = 1, CreatedAt = noon,
            Filename = ''a1.webp'', StoragePath = ''2024/12/a1.webp''\<rparr>"

definition store_with_photo :: MetadataStore where
  "store_with_photo = empty_store\<lparr>images := Some [(''a1'', Some photo)]\<rparr>"


text \<open>\<open>filepath.Join\<close> on a directory name that is already clean.\<close>

definition join_slash :: "string \<Rightarrow> string \<Rightarrow> string" where
  "join_slash dir name = dir @ ''/'' @ name"

text \<open>
  A metadata file that cannot be read, one that breaks off in the middle, one that holds
  a list, one whose record has a number where the URL should be, one whose second record
  has a number where the date should be, and one that holds \<open>null\<close>.
\<close>

definition unreadable_Sys :: Sys where
  "unreadable_Sys =
     empty_Sys\<lparr>files := [''data/metadata.json'' \<mapsto> JsonTable []],
               read_fault := (\<lambda>p. Some EACCES)\<rparr>"

definition corrupt_Sys :: Sys where
  "corrupt_Sys =
     empty_Sys\<lparr>files := [''data/metadata.json'' \<mapsto> BadSyntax ''unexpected end of JSON input'']\<rparr>"

definition list_Sys :: Sys where
  "list_Sys =
     empty_Sys\<lparr>files := [''data/metadata.json'' \<mapsto>
                           BadType ''json: cannot unmarshal array into Go value of type map[string]*model.Image'']\<rparr>"

definition mistyped_Sys :: Sys where
  "mistyped_Sys =
     empty_Sys\<lparr>files := [''data/metadata.json'' \<mapsto>
                           BadValue [(''a1'', Some (photo\<lparr>URL := [], StoragePath := []\<rparr>))]
                             ''json: cannot unmarshal number into Go struct field Image.url of type string'']\<rparr>"

definition misdated_Sys :: Sys where
  "misdated_Sys =
     empty_Sys\<lparr>files := [''data/metadata.json'' \<mapsto>
                           BadTime [(''a1'', Some (photo\<lparr>StoragePath := []\<rparr>))] None]\<rparr>"



text \<open>A record from before the storage key was kept, with a URL that has no \<open>/images/\<close> prefix.\<close>

definition legacy_photo :: Image where
  "legacy_photo = photo\<lparr>URL := ''https://cdn.example.org/a1.webp'', StoragePath := []\<rparr>"

definition store_with_legacy :: MetadataStore where
  "store_with_legacy = empty_store\<lparr>images := Some [(''a1'', Some legacy_photo)]\<rparr>"

text \<open>A backend that stores every object and refuses to delete any.\<close>

definition KeepingStorage :: "((string \<times> byte list) list) Storage" where
  "KeepingStorage =
     \<lparr>storage_Save = (\<lambda>st key content. (AList.update key content st, Inr (''/images/'' @ key))),
      storage_Delete = (\<lambda>st key. (st, Some (PathError ''remove'' key (Errno EACCES)))),
      local_BasePath = None\<rparr>"

text \<open>Worlds with an empty backend, and services over the three backends.\<close>

definition World_of :: "MetadataStore \<Rightarrow> Sys \<Rightarrow> ((string \<times> byte list) list) World" where
  "World_of m sys = \<lparr>backend = [], metadata = m, env = sys\<rparr>"

definition local_service :: "((string \<times> byte list) list) ImageService" where
  "local_service = service_with DefaultConfig (LocalStorage ''./storage/images'' ''/images'')"

definition readonly_service :: "((string \<times> byte list) list) ImageService" where
  "readonly_service = service_with DefaultConfig ReadOnlyStorage"

definition keeping_service :: "((string \<times> byte list) list) ImageService" where
  "keeping_service = service_with DefaultConfig KeepingStorage"

section \<open>Notions used in the statements\<close>

text \<open>
  The orientation table as the specification words it: the values 1 to 8 stand, in this
  order, for identity, horizontal flip, rotation by 180, vertical flip, transpose,
  rotation by 270, transverse and rotation by 90.
\<close>

definition orientation_table :: "('img, 'exif, 'tag) Libs \<Rightarrow> ('img \<Rightarrow> 'img) list" where
  "orientation_table L =
     [(\<lambda>img. img), imaging_FlipH L, imaging_Rotate180 L, imaging_FlipV L,
      imaging_Transpose L, imaging_Rotate270 L, imaging_Transverse L, imaging_Rotate90 L]"

text \<open>What \<open>Process\<close> returns when \<open>img\<close> is the image that reaches the encoder.\<close>

definition encode_outcome ::
  "('img, 'exif, 'tag) Libs \<Rightarrow> ImageProcessor \<Rightarrow> 'img \<Rightarrow> Sys \<Rightarrow> Sys \<times> (go_error + ProcessResult)" where
  "encode_outcome L p img sys =
     (emit EncodeWebP sys,
      case webp_Encode L img (quality p) of
        Inl err \<Rightarrow> Inl (WrapError (''failed to encode webp: '' @ Error err) err)
      | Inr d \<Rightarrow> Inr \<lparr>pr_Data = d, pr_Width = Bounds_Dx L img, pr_Height = Bounds_Dy L img,
                      pr_Format = ''webp''\<rparr>)"

text \<open>
  The error a durable rewrite of the table \<open>tbl\<close> to the file at \<open>path\<close> meets in the
  environment \<open>sys\<close>, if any: that of the encoding, or else that of the write of the
  temporary file, or else that of the rename.
\<close>

definition rewrite_error :: "Sys \<Rightarrow> string \<Rightarrow> table \<Rightarrow> go_error option" where
  "rewrite_error sys path tbl =
     (case json_MarshalIndent tbl of
        Inl err \<Rightarrow> Some err
      | Inr d \<Rightarrow>
          (case write_fault sys (path @ ''.tmp'') of
             Some f \<Rightarrow> Some (PathError (if open_fault f then ''open'' else ''write'') (path @ ''.tmp'') (Errno f))
           | None \<Rightarrow>
               (case rename_fault sys (path @ ''.tmp'') of
                  Some f \<Rightarrow> Some (LinkError ''rename'' (path @ ''.tmp'') path (Errno f))
                | None \<Rightarrow> None)))"


text \<open>The calls \<open>saveLocked\<close> can make for the file at \<open>path\<close>.\<close>

definition rewrite_events :: "string \<Rightarrow> event set" where
  "rewrite_events path =
     {OsWriteFile (path @ ''.tmp''), OsRename (path @ ''.tmp'') path, OsRemove (path @ ''.tmp'')}"

text \<open>
  A mutation \<open>op\<close> of the store, run on \<open>s\<close> and \<open>sys\<close>, returns with the mutex free and
  \<open>tbl\<close> as the table in memory, and what it returns is the error the rewrite of \<open>tbl\<close>
  meets, or success when it meets none; between taking and releasing the mutex it calls
  nothing but the write of the temporary file, the rename and the removal; when it
  returns success it has written and renamed, and the file holds the encoding of the
  whole of \<open>tbl\<close>; when it returns an error the file is as it was.
\<close>

definition rewrites_under_lock ::
  "(MetadataStore \<Rightarrow> Sys \<Rightarrow> (MetadataStore \<times> Sys \<times> go_error option outcome) option) \<Rightarrow>
   MetadataStore \<Rightarrow> Sys \<Rightarrow> table \<Rightarrow> bool" where
  "rewrites_under_lock op s sys tbl \<longleftrightarrow>
     (\<exists>s' sys' r mid.
        op s sys = Some (s', sys', Returned r) \<and> \<not> locked s' \<and> images s' = tbl \<and> filePath s' = filePath s \<and>
        r = rewrite_error sys (filePath s) tbl \<and>
        trace sys' = trace sys @ [MuLock] @ mid @ [MuUnlock] \<and>
        set mid \<subseteq> rewrite_events (filePath s) \<and>
        (r = None \<longrightarrow>
           mid = [OsWriteFile (filePath s @ ''.tmp''), OsRename (filePath s @ ''.tmp'') (filePath s)] \<and>
           (\<exists>d. json_MarshalIndent tbl = Inr d \<and> files sys' (filePath s) = Some d)) \<and>
        (r \<noteq> None \<longrightarrow> files sys' (filePath s) = files sys (filePath s)))"

text \<open>The calls of \<open>log.Printf\<close> in a trace.\<close>

fun is_log :: "event \<Rightarrow> bool" where
  "is_log (LogPrintf m) = True"
| "is_log e = False"

text \<open>
  \<open>out\<close>, the outcome of \<open>DeleteImage\<close> on \<open>w\<close>, is that of a run that has removed the
  record \<open>id'\<close> from the table: the backend is \<open>b\<close>, the calls made are \<open>before\<close>
  followed by one rewrite of the table under the mutex, and the result is success when
  the rewrite meets no error, and the error it meets under the message "failed to delete
  metadata: ..." otherwise.
\<close>

definition metadata_deleted ::
  "'st World \<Rightarrow> string \<Rightarrow> event list \<Rightarrow> 'st \<Rightarrow> ('st World \<times> go_error option outcome) option \<Rightarrow> bool" where
  "metadata_deleted w id' before b out \<longleftrightarrow>
     (\<exists>m' sys' mid.
        out = Some (\<lparr>backend = b, metadata = m', env = sys'\<rparr>,
                    Returned (map_option (\<lambda>e. WrapError (''failed to delete metadata: '' @ Error e) e)
                                (rewrite_error (env w) (filePath (metadata w)) (images m')))) \<and>
        images m' = map_option (AList.delete id') (images (metadata w)) \<and> \<not> locked m' \<and>
        trace sys' = trace (env w) @ before @ [MuLock] @ mid @ [MuUnlock] \<and>
        set mid \<subseteq> rewrite_events (filePath (metadata w)))"

text \<open>The half-open window \<open>[lo, hi)\<close> of a list.\<close>

definition window :: "int \<Rightarrow> int \<Rightarrow> 'a list \<Rightarrow> 'a list" where
  "window lo hi xs = take (nat (hi - lo)) (drop (nat lo) xs)"

text \<open>
  An error that carries its kind in its message only: an \<open>errorString\<close> whose message
  starts with one of the prefixes \<open>ps\<close>, or a \<open>wrapError\<close> whose message is such a
  prefix followed by the message of the error it wraps.
\<close>

definition message_error :: "string list \<Rightarrow> go_error \<Rightarrow> bool" where
  "message_error ps e \<longleftrightarrow>
     (\<exists>p \<in> set ps. (\<exists>s. e = ErrorString s \<and> prefix p s) \<or>
                     (\<exists>s cause. e = WrapError s cause \<and> s = p @ Error cause))"

text \<open>What is left of an error when its message strings are set aside.\<close>

fun erase_messages :: "go_error \<Rightarrow> go_error" where
  "erase_messages (ErrorString s) = ErrorString []"
| "erase_messages (WrapError s e) = WrapError [] (erase_messages e)"
| "erase_messages (SyntaxError s) = SyntaxError []"
| "erase_messages (UnmarshalTypeError s) = UnmarshalTypeError []"
| "erase_messages (MarshalerError s) = MarshalerError []"
| "erase_messages (ParseError s) = ParseError []"
| "erase_messages e = e"

section \<open>Auxiliary facts\<close>

lemma ValidateMimeType_iff: "ValidateMimeType m ts \<longleftrightarrow> m \<in> set ts"
  by (induction ts) auto

section \<open>Upload: validation\<close>

text \<open>
  Claim C9. An input of fewer than four bytes, the empty one included, is sniffed as
  \<open>application/octet-stream\<close>. When every entry of the allow-list is an image type,
  \<open>Upload\<close> then returns the error "invalid file type: application/octet-stream" and
  leaves the world as it was: the trace is unchanged, so no decoder has been called.
\<close>

theorem short_input_rejected:
  assumes "length data < 4"
    and "\<forall>t \<in> set (AllowedTypes (cfg_Image (config svc))). prefix ''image/'' t"
  shows "detectMimeFromHeader data = ''application/octet-stream'' \<and>
         Upload L svc (Reader data None) originalSize now uuid w =
           Some (w, Returned (Inl (ErrorString ''invalid file type: application/octet-stream'')))"
proof -
  have m: "detectMimeFromHeader data = ''application/octet-stream''"
    using assms(1) by (simp add: detectMimeFromHeader_def)
  have "\<not> prefix ''image/'' ''application/octet-stream''" by simp
  with assms(2) have "''application/octet-stream'' \<notin> set (AllowedTypes (cfg_Image (config svc)))"
    by blast
  then have "\<not> ValidateMimeType (detectMimeFromHeader data) (AllowedTypes (cfg_Image (config svc)))"
    by (simp add: m ValidateMimeType_iff)
  then show ?thesis
    using m by (simp add: Upload_def Errorf_s_def)
qed

text \<open>The first three bytes of a JPEG file alone are rejected, under the default configuration.\<close>

theorem short_input_rejected_witness:
  "detectMimeFromHeader [0xFF, 0xD8, 0xFF] = ''application/octet-stream'' \<and>
   Upload grid_Libs (service_with DefaultConfig (LocalStorage ''./storage/images'' ''/images''))
       (Reader [0xFF, 0xD8, 0xFF] None) 3 noon ''0b5c'' empty_World =
     Some (empty_World, Returned (Inl (ErrorString ''invalid file type: application/octet-stream'')))"
  using short_input_rejected [of "[0xFF, 0xD8, 0xFF]"
      "service_with DefaultConfig (LocalStorage ''./storage/images'' ''/images'')"
      grid_Libs 3 noon "''0b5c''" empty_World]
  by (simp add: service_with_def DefaultConfig_def)

text \<open>
  Claim C3. Once the input is buffered, \<open>Upload\<close> checks the sniffed type against the
  allow-list before it looks at the size. A type outside the allow-list gives the error
  "invalid file type: ..." whatever the length of the input; an allowed type whose
  buffered length exceeds \<open>MaxSize\<close> gives the error "file too large: ...". In both
  cases the world is returned as it was: nothing is stored, no metadata is written, no
  call leaves the service.
\<close>

theorem Upload_validation_order:
  assumes "io_ReadAll file = (data, None)"
  shows "(\<not> ValidateMimeType (detectMimeFromHeader data) (AllowedTypes (cfg_Image (config svc))) \<longrightarrow>
            Upload L svc file originalSize now uuid w =
              Some (w, Returned (Inl (ErrorString (''invalid file type: '' @ detectMimeFromHeader data))))) \<and>
         (ValidateMimeType (detectMimeFromHeader data) (AllowedTypes (cfg_Image (config svc))) \<and>
          int (length data) > MaxSize (cfg_Image (config svc)) \<longrightarrow>
            Upload L svc file originalSize now uuid w =
              Some (w, Returned (Inl (ErrorString (''file too large: '' @ fmt_d (int (length data)) @
                                                   '' bytes (max: '' @
                                                   fmt_d (MaxSize (cfg_Image (config svc))) @ '')'')))))"
  using assms by (simp add: Upload_def Errorf_s_def)

text \<open>With a limit of 8 bytes: nine bytes of no known type, then twelve bytes of JPEG.\<close>

theorem Upload_validation_order_witness:
  "Upload grid_Libs (service_with SmallConfig ReadOnlyStorage) (Reader junk9 None) 9 noon ''0b5c'' empty_World =
     Some (empty_World, Returned (Inl (ErrorString ''invalid file type: application/octet-stream''))) \<and>
   Upload grid_Libs (service_with SmallConfig ReadOnlyStorage) (Reader jpeg12 None) 12 noon ''0b5c'' empty_World =
     Some (empty_World, Returned (Inl (ErrorString ''file too large: 12 bytes (max: 8)'')))"
  using Upload_validation_order [of "Reader junk9 None" junk9 "service_with SmallConfig ReadOnlyStorage"
          grid_Libs 9 noon "''0b5c''" empty_World]
        Upload_validation_order [of "Reader jpeg12 None" jpeg12 "service_with SmallConfig ReadOnlyStorage"
          grid_Libs 12 noon "''0b5c''" empty_World]
  by (simp add: service_with_def SmallConfig_def DefaultConfig_def junk9_def jpeg12_def
        detectMimeFromHeader_def fmt_d_def nat_digits.simps digit_char_def)

section \<open>Process: orientation\<close>

lemma Process_jpeg:
  "jpeg_Decode L data = Inr img \<Longrightarrow>
   Process L p data ''image/jpeg'' sys =
     encode_outcome L p (fixOrientation L data img) (emit ExifDecode (emit (Decode ''jpeg'') sys))"
  by (simp add: Process_def decodeImage_def encodeWebP_def encode_outcome_def Errorf_w_def
      split: sum.splits)

lemma Process_png:
  "png_Decode L data = Inr img \<Longrightarrow>
   Process L p data ''image/png'' sys = encode_outcome L p img (emit (Decode ''png'') sys)"
  by (simp add: Process_def decodeImage_def encodeWebP_def encode_outcome_def Errorf_w_def
      split: sum.splits)

lemma Process_webp:
  "xwebp_Decode L data = Inr img \<Longrightarrow>
   Process L p data ''image/webp'' sys = encode_outcome L p img (emit (Decode ''webp'') sys)"
  by (simp add: Process_def decodeImage_def encodeWebP_def encode_outcome_def Errorf_w_def
      split: sum.splits)

lemma fixOrientation_table:
  assumes "exif_Decode L data = Inr x" "exif_Get_Orientation L x = Inr t" "tag_Int0 L t = Inr k"
    and "1 \<le> k" "k \<le> 8"
  shows "fixOrientation L data img = (orientation_table L ! nat (k - 1)) img"
proof -
  from assms(4,5) consider "k = 1" | "k = 2" | "k = 3" | "k = 4" | "k = 5" | "k = 6" | "k = 7" | "k = 8"
    by arith
  then show ?thesis
    using assms(1-3) by cases (simp_all add: fixOrientation_def orientation_table_def)
qed

text \<open>
  Claim C8. For JPEG input whose EXIF orientation reads \<open>k\<close> between 1 and 8, the image
  \<open>Process\<close> encodes is the decoded image under entry \<open>k\<close> of the specification's
  table; when the EXIF data, the orientation tag or its integer value cannot be read,
  the decoded image is encoded as it is. For PNG and WebP input the decoded image is
  encoded as it is, whatever the EXIF functions would say, and the EXIF reader is not
  called. The width and height returned are those of the image encoded.
\<close>

theorem Process_orientation:
  "(jpeg_Decode L data = Inr img \<longrightarrow>
      (\<forall>x t k. exif_Decode L data = Inr x \<and> exif_Get_Orientation L x = Inr t \<and> tag_Int0 L t = Inr k \<and>
                1 \<le> k \<and> k \<le> 8 \<longrightarrow>
         Process L p data ''image/jpeg'' sys =
           encode_outcome L p ((orientation_table L ! nat (k - 1)) img)
             (emit ExifDecode (emit (Decode ''jpeg'') sys))) \<and>
      ((\<exists>e. exif_Decode L data = Inl e) \<or>
       (\<exists>x e. exif_Decode L data = Inr x \<and> exif_Get_Orientation L x = Inl e) \<or>
       (\<exists>x t e. exif_Decode L data = Inr x \<and> exif_Get_Orientation L x = Inr t \<and> tag_Int0 L t = Inl e) \<longrightarrow>
         Process L p data ''image/jpeg'' sys =
           encode_outcome L p img (emit ExifDecode (emit (Decode ''jpeg'') sys)))) \<and>
   (png_Decode L data = Inr img \<longrightarrow>
      Process L p data ''image/png'' sys = encode_outcome L p img (emit (Decode ''png'') sys)) \<and>
   (xwebp_Decode L data = Inr img \<longrightarrow>
      Process L p data ''image/webp'' sys = encode_outcome L p img (emit (Decode ''webp'') sys))"
proof (intro conjI impI allI)
  fix x t k
  assume "jpeg_Decode L data = Inr img"
    and "exif_Decode L data = Inr x \<and> exif_Get_Orientation L x = Inr t \<and> tag_Int0 L t = Inr k \<and> 1 \<le> k \<and> k \<le> 8"
  then show "Process L p data ''image/jpeg'' sys =
           encode_outcome L p ((orientation_table L ! nat (k - 1)) img)
             (emit ExifDecode (emit (Decode ''jpeg'') sys))"
    by (simp add: Process_jpeg fixOrientation_table)
next
  assume "jpeg_Decode L data = Inr img"
    and "(\<exists>e. exif_Decode L data = Inl e) \<or>
       (\<exists>x e. exif_Decode L data = Inr x \<and> exif_Get_Orientation L x = Inl e) \<or>
       (\<exists>x t e. exif_Decode L data = Inr x \<and> exif_Get_Orientation L x = Inr t \<and> tag_Int0 L t = Inl e)"
  then show "Process L p data ''image/jpeg'' sys =
           encode_outcome L p img (emit ExifDecode (emit (Decode ''jpeg'') sys))"
    by (auto simp add: Process_jpeg fixOrientation_def)
qed (simp_all add: Process_png Process_webp)

text \<open>
  A JPEG whose orientation is 6 comes out rotated, two pixels wide become two pixels
  high; a JPEG without EXIF data, a PNG and a WebP come out as decoded.
\<close>

theorem Process_orientation_witness:
  "Process grid_Libs (NewImageProcessor 75) jpeg_rot ''image/jpeg'' empty_Sys =
     (empty_Sys\<lparr>trace := [Decode ''jpeg'', ExifDecode, EncodeWebP]\<rparr>,
      Inr \<lparr>pr_Data = [75, 10, 20], pr_Width = 1, pr_Height = 2, pr_Format = ''webp''\<rparr>) \<and>
   Process grid_Libs (NewImageProcessor 75) jpeg12 ''image/jpeg'' empty_Sys =
     (empty_Sys\<lparr>trace := [Decode ''jpeg'', ExifDecode, EncodeWebP]\<rparr>,
      Inr \<lparr>pr_Data = [75, 10, 20], pr_Width = 2, pr_Height = 1, pr_Format = ''webp''\<rparr>) \<and>
   Process grid_Libs (NewImageProcessor 75) png10 ''image/png'' empty_Sys =
     (empty_Sys\<lparr>trace := [Decode ''png'', EncodeWebP]\<rparr>,
      Inr \<lparr>pr_Data = [75, 30, 40], pr_Width = 2, pr_Height = 1, pr_Format = ''webp''\<rparr>) \<and>
   Process grid_Libs (NewImageProcessor 75) webp14 ''image/webp'' empty_Sys =
     (empty_Sys\<lparr>trace := [Decode ''webp'', EncodeWebP]\<rparr>,
      Inr \<lparr>pr_Data = [75, 50, 60], pr_Width = 2, pr_Height = 1, pr_Format = ''webp''\<rparr>)"
  using Process_orientation [of grid_Libs jpeg_rot "[[10, 20]]" "NewImageProcessor 75" empty_Sys]
        Process_orientation [of grid_Libs jpeg12 "[[10, 20]]" "NewImageProcessor 75" empty_Sys]
        Process_orientation [of grid_Libs png10 "[[30, 40]]" "NewImageProcessor 75" empty_Sys]
        Process_orientation [of grid_Libs webp14 "[[50, 60]]" "NewImageProcessor 75" empty_Sys]
  by (simp add: grid_Libs_def two_pixels_at_def jpeg_rot_def jpeg12_def png10_def webp14_def
        orientation_table_def encode_outcome_def NewImageProcessor_def grid_Dx_def emit_def
        empty_Sys_def)

section \<open>MetadataStore: the durable rewrite\<close>

lemma of_char_ascii: "\<not> digit7 c \<Longrightarrow> (of_char c :: nat) < 128"
  by (cases c) (simp add: of_bool_def)

lemma rune_size_ascii: "\<not> digit7 c \<Longrightarrow> rune_size c = 1"
  using of_char_ascii [of c] by (simp add: rune_size_def Let_def)

lemma coerce_ascii: "list_all (\<lambda>c. \<not> digit7 c) s \<Longrightarrow> coerce_from 0 s = s"
  by (induction s) (simp_all add: valid_rune_def rune_size_ascii)

lemma ToValidUTF8_ascii: "list_all (\<lambda>c. \<not> digit7 c) s \<Longrightarrow> ToValidUTF8 s = s"
  by (simp add: ToValidUTF8_def coerce_ascii)

lemma rewrite_error_faults:
  "write_fault sys' = write_fault sys \<Longrightarrow> rename_fault sys' = rename_fault sys \<Longrightarrow>
   rewrite_error sys' p tbl = rewrite_error sys p tbl"
  by (simp add: rewrite_error_def split: sum.splits option.splits)

lemma rewrite_error_emit [simp]: "rewrite_error (emit e sys) p tbl = rewrite_error sys p tbl"
  by (simp add: rewrite_error_def emit_def split: sum.splits option.splits)

lemma saveLocked_ok:
  assumes "rewrite_error sys (filePath s) (images s) = None"
  shows "\<exists>d. json_MarshalIndent (images s) = Inr d \<and>
           saveLocked s sys =
             (sys\<lparr>files := (files sys)(filePath s @ ''.tmp'' := None, filePath s \<mapsto> d),
                  trace := trace sys @ [OsWriteFile (filePath s @ ''.tmp''),
                                        OsRename (filePath s @ ''.tmp'') (filePath s)]\<rparr>, None)"
  using assms
  by (auto simp add: saveLocked_def rewrite_error_def os_WriteFile_def os_Rename_def emit_def Let_def
      split: sum.splits option.splits)

lemma saveLocked_fail:
  assumes "rewrite_error sys (filePath s) (images s) = Some e"
  shows "\<exists>sys' mid. saveLocked s sys = (sys', Some e) \<and>
           files sys' (filePath s) = files sys (filePath s) \<and>
           trace sys' = trace sys @ mid \<and>
           set mid \<subseteq> rewrite_events (filePath s)"
  using assms
  by (auto simp add: saveLocked_def rewrite_error_def os_WriteFile_def os_Rename_def os_Remove_def
      rewrite_events_def emit_def Let_def split: sum.splits option.splits if_splits)


lemma saveLocked_faults [simp]:
  "write_fault (fst (saveLocked s sys)) = write_fault sys"
  "rename_fault (fst (saveLocked s sys)) = rename_fault sys"
  by (auto simp add: saveLocked_def os_WriteFile_def os_Rename_def os_Remove_def
      emit_def Let_def split: sum.splits option.splits)

lemma unlocked_again: "\<not> locked s \<Longrightarrow> s\<lparr>locked := False\<rparr> = s"
  by (cases s) simp

lemma Add_unlocked:
  assumes "\<not> locked s" "images s = Some t"
  shows "MetadataStore_Add (Some img) s sys =
           Some (s\<lparr>images := Some (AList.update (ID img) (Some img) t)\<rparr>,
                 emit MuUnlock (fst (saveLocked (s\<lparr>locked := True,
                                                   images := Some (AList.update (ID img) (Some img) t)\<rparr>)
                                        (emit MuLock sys))),
                 Returned (snd (saveLocked (s\<lparr>locked := True,
                                              images := Some (AList.update (ID img) (Some img) t)\<rparr>)
                                  (emit MuLock sys))))"
  using assms by (simp add: MetadataStore_Add_def with_mu_def Let_def split: prod.splits)

lemma Add_nil_table:
  assumes "\<not> locked s" "images s = None"
  shows "MetadataStore_Add (Some img) s sys =
           Some (s, sys\<lparr>trace := trace sys @ [MuLock, MuUnlock]\<rparr>, Panicked NilMapAssignment)"
  using assms by (simp add: MetadataStore_Add_def with_mu_def emit_def unlocked_again)

lemma Add_nil_pointer:
  assumes "\<not> locked s"
  shows "MetadataStore_Add None s sys =
           Some (s, sys\<lparr>trace := trace sys @ [MuLock, MuUnlock]\<rparr>, Panicked NilPointerDereference)"
  using assms by (simp add: MetadataStore_Add_def with_mu_def emit_def unlocked_again)

lemma Delete_unlocked:
  assumes "\<not> locked s"
  shows "MetadataStore_Delete id' s sys =
           Some (s\<lparr>images := map_option (AList.delete id') (images s)\<rparr>,
                 emit MuUnlock (fst (saveLocked (s\<lparr>locked := True,
                                                   images := map_option (AList.delete id') (images s)\<rparr>)
                                        (emit MuLock sys))),
                 Returned (snd (saveLocked (s\<lparr>locked := True,
                                              images := map_option (AList.delete id') (images s)\<rparr>)
                                  (emit MuLock sys))))"
  using assms by (simp add: MetadataStore_Delete_def with_mu_def Let_def split: prod.splits)

lemma rewrites_under_lock_save:
  assumes "\<not> locked s"
    and op: "op s sys =
           Some (s\<lparr>images := tbl\<rparr>,
                 emit MuUnlock (fst (saveLocked (s\<lparr>locked := True, images := tbl\<rparr>) (emit MuLock sys))),
                 Returned (snd (saveLocked (s\<lparr>locked := True, images := tbl\<rparr>) (emit MuLock sys))))"
  shows "rewrites_under_lock op s sys tbl"
proof -
  define s1 where "s1 = s\<lparr>locked := True, images := tbl\<rparr>"
  define sys1 where "sys1 = emit MuLock sys"
  have fp: "filePath s1 = filePath s" and im: "images s1 = tbl" by (simp_all add: s1_def)
  have re: "rewrite_error sys1 (filePath s1) (images s1) = rewrite_error sys (filePath s) tbl"
    by (simp add: fp im sys1_def)
  note op' = op [folded s1_def sys1_def]
  show ?thesis
  proof (cases "rewrite_error sys (filePath s) tbl")
    case None
    with re have "rewrite_error sys1 (filePath s1) (images s1) = None" by simp
    from saveLocked_ok [OF this] obtain d where
      d: "json_MarshalIndent tbl = Inr d"
      and sl: "saveLocked s1 sys1 =
             (sys1\<lparr>files := (files sys1)(filePath s @ ''.tmp'' := None, filePath s \<mapsto> d),
                   trace := trace sys1 @ [OsWriteFile (filePath s @ ''.tmp''),
                                          OsRename (filePath s @ ''.tmp'') (filePath s)]\<rparr>, None)"
      by (auto simp add: fp im)
    show ?thesis
      unfolding rewrites_under_lock_def op' sl using assms(1) None d
      by (simp add: sys1_def emit_def rewrite_events_def)
  next
    case (Some e)
    with re have "rewrite_error sys1 (filePath s1) (images s1) = Some e" by simp
    from saveLocked_fail [OF this] obtain sys2 mid where
      sl: "saveLocked s1 sys1 = (sys2, Some e)"
      and f: "files sys2 (filePath s) = files sys1 (filePath s)"
      and t: "trace sys2 = trace sys1 @ mid"
      and m: "set mid \<subseteq> rewrite_events (filePath s)"
      by (auto simp add: fp)
    show ?thesis
      unfolding rewrites_under_lock_def op' sl using f t m assms(1) Some
      by (simp add: sys1_def emit_def)
  qed
qed



lemma marshal_photo:
  "json_MarshalIndent (Some [(''a1'', Some photo)]) = Inr (JsonTable [(''a1'', Some (photo\<lparr>StoragePath := []\<rparr>))])"
  by (simp add: json_MarshalIndent_def Time_MarshalJSON_error_def as_written_def photo_def noon_def
      ToValidUTF8_ascii)

lemma saveLocked_write_fault:
  assumes "json_MarshalIndent (images s) = Inr d" "write_fault sys (filePath s @ ''.tmp'') = Some f"
    and "\<not> open_fault f"
  shows "saveLocked s sys =
     (sys\<lparr>files := (files sys)(filePath s @ ''.tmp'' \<mapsto> BadSyntax ''unexpected end of JSON input''),
          trace := trace sys @ [OsWriteFile (filePath s @ ''.tmp'')]\<rparr>,
      Some (PathError ''write'' (filePath s @ ''.tmp'') (Errno f)))"
  using assms by (simp add: saveLocked_def os_WriteFile_def emit_def Let_def)


section \<open>MetadataStore: start-up\<close>

lemma load_fresh:
  "load \<lparr>locked = False, images = Some [], filePath = p\<rparr> sys =
     (case loadLocked \<lparr>locked = True, images = Some [], filePath = p\<rparr> (emit MuLock sys) of
        (s1, sys1, r) \<Rightarrow> Some (s1\<lparr>locked := False\<rparr>, emit MuUnlock sys1, r))"
  by (simp add: load_def with_mu_def)

text \<open>
  Claim C6. With \<open>p\<close> the path of the metadata file: when there is no file at \<open>p\<close>,
  \<open>NewMetadataStore\<close> returns a store with an empty table; when there is a file and
  reading it fails, or its content is not JSON, or it is JSON that does not decode into
  the table (a value that is not an object, an object with a value of the wrong type, an
  object with a creation time that does not parse), \<open>NewMetadataStore\<close> returns the
  error and no store, whatever part of the content had been decoded.
\<close>

theorem startup_load:
  assumes "p = join basePath ''metadata.json''"
  shows "(files sys p = None \<longrightarrow>
            NewMetadataStore join basePath sys =
              Some (sys\<lparr>trace := trace sys @ [MuLock, OsReadFile p, MuUnlock]\<rparr>,
                    Inr \<lparr>locked = False, images = Some [], filePath = p\<rparr>)) \<and>
         (\<forall>d f. files sys p = Some d \<and> read_fault sys p = Some f \<longrightarrow>
            NewMetadataStore join basePath sys =
              Some (sys\<lparr>trace := trace sys @ [MuLock, OsReadFile p, MuUnlock]\<rparr>,
                    Inl (PathError (if f = EACCES then ''open'' else ''read'') p (Errno f)))) \<and>
         (\<forall>msg. files sys p = Some (BadSyntax msg) \<and> read_fault sys p = None \<longrightarrow>
            NewMetadataStore join basePath sys =
              Some (sys\<lparr>trace := trace sys @ [MuLock, OsReadFile p, MuUnlock]\<rparr>,
                    Inl (SyntaxError msg))) \<and>
         (\<forall>msg. files sys p = Some (BadType msg) \<and> read_fault sys p = None \<longrightarrow>
            NewMetadataStore join basePath sys =
              Some (sys\<lparr>trace := trace sys @ [MuLock, OsReadFile p, MuUnlock]\<rparr>,
                    Inl (UnmarshalTypeError msg))) \<and>
         (\<forall>es msg. files sys p = Some (BadValue es msg) \<and> read_fault sys p = None \<longrightarrow>
            NewMetadataStore join basePath sys =
              Some (sys\<lparr>trace := trace sys @ [MuLock, OsReadFile p, MuUnlock]\<rparr>,
                    Inl (UnmarshalTypeError msg))) \<and>
         (\<forall>es cause. files sys p = Some (BadTime es cause) \<and> read_fault sys p = None \<longrightarrow>
            NewMetadataStore join basePath sys =
              Some (sys\<lparr>trace := trace sys @ [MuLock, OsReadFile p, MuUnlock]\<rparr>,
                    Inl (Time_UnmarshalJSON_error cause)))"
proof -
  have ne: "\<not> os_IsNotExist (Time_UnmarshalJSON_error cause)" for cause
    by (cases cause) simp_all
  show ?thesis
    using assms
    by (auto simp add: NewMetadataStore_def load_fresh loadLocked_def os_ReadFile_def emit_def Let_def ne)
qed

text \<open>
  No file; a file that cannot be read; a file that breaks off; a file that holds a list; a
  file whose one record has a value of the wrong type; a file whose second record has a
  number for its creation time.
\<close>

theorem startup_load_witness:
  "NewMetadataStore join_slash ''data'' empty_Sys =
     Some (empty_Sys\<lparr>trace := [MuLock, OsReadFile ''data/metadata.json'', MuUnlock]\<rparr>,
           Inr \<lparr>locked = False, images = Some [], filePath = ''data/metadata.json''\<rparr>) \<and>
   NewMetadataStore join_slash ''data'' unreadable_Sys =
     Some (unreadable_Sys\<lparr>trace := [MuLock, OsReadFile ''data/metadata.json'', MuUnlock]\<rparr>,
           Inl (PathError ''open'' ''data/metadata.json'' (Errno EACCES))) \<and>
   NewMetadataStore join_slash ''data'' corrupt_Sys =
     Some (corrupt_Sys\<lparr>trace := [MuLock, OsReadFile ''data/metadata.json'', MuUnlock]\<rparr>,
           Inl (SyntaxError ''unexpected end of JSON input'')) \<and>
   NewMetadataStore join_slash ''data'' list_Sys =
     Some (list_Sys\<lparr>trace := [MuLock, OsReadFile ''data/metadata.json'', MuUnlock]\<rparr>,
           Inl (UnmarshalTypeError
                  ''json: cannot unmarshal array into Go value of type map[string]*model.Image'')) \<and>
   NewMetadataStore join_slash ''data'' mistyped_Sys =
     Some (mistyped_Sys\<lparr>trace := [MuLock, OsReadFile ''data/metadata.json'', MuUnlock]\<rparr>,
           Inl (UnmarshalTypeError
                  ''json: cannot unmarshal number into Go struct field Image.url of type string'')) \<and>
   NewMetadataStore join_slash ''data'' misdated_Sys =
     Some (misdated_Sys\<lparr>trace := [MuLock, OsReadFile ''data/metadata.json'', MuUnlock]\<rparr>,
           Inl (ErrorString ''Time.UnmarshalJSON: input is not a JSON string''))"
  using startup_load [of "''data/metadata.json''" join_slash "''data''" empty_Sys]
        startup_load [of "''data/metadata.json''" join_slash "''data''" unreadable_Sys]
        startup_load [of "''data/metadata.json''" join_slash "''data''" corrupt_Sys]
        startup_load [of "''data/metadata.json''" join_slash "''data''" list_Sys]
        startup_load [of "''data/metadata.json''" join_slash "''data''" mistyped_Sys]
        startup_load [of "''data/metadata.json''" join_slash "''data''" misdated_Sys]
  by (simp add: join_slash_def empty_Sys_def unreadable_Sys_def corrupt_Sys_def list_Sys_def
      mistyped_Sys_def misdated_Sys_def)


section \<open>MetadataStore: Add\<close>






section \<open>DeleteImage\<close>

lemma Get_unlocked:
  "\<not> locked s \<Longrightarrow>
   MetadataStore_Get id' s sys =
     Some (s, sys\<lparr>trace := trace sys @ [MuLock, MuUnlock]\<rparr>,
           case map_of (made (images s)) id' of
             None \<Rightarrow> Returned None
           | Some None \<Rightarrow> Panicked NilPointerDereference
           | Some (Some img) \<Rightarrow> Returned (Some img))"
  by (simp add: MetadataStore_Get_def with_mu_def emit_def unlocked_again)

lemma split_on_not_Nil [simp]: "split_on c s \<noteq> []"
  by (induction s) (auto split: list.splits)

lemma isValidStoragePath_iff:
  "isValidStoragePath path \<longleftrightarrow>
     path \<noteq> [] \<and> filepath_Ext path \<in> {''.webp'', ''.jpg'', ''.jpeg'', ''.png''}"
  by (simp add: isValidStoragePath_def filepath_SplitList_def Let_def)

lemma skip_condition:
  "(key = [] \<or> key = ''/'' \<or> \<not> isValidStoragePath key) \<longleftrightarrow>
   (key = [] \<or> filepath_Ext key \<notin> {''.webp'', ''.jpg'', ''.jpeg'', ''.png''})"
  by (auto simp add: isValidStoragePath_iff filepath_Ext_def)

lemma Delete_outcome:
  assumes "\<not> locked s"
  shows "\<exists>s' sys' mid.
           MetadataStore_Delete id' s sys =
             Some (s', sys', Returned (rewrite_error sys (filePath s) (images s'))) \<and>
           images s' = map_option (AList.delete id') (images s) \<and> \<not> locked s' \<and>
           trace sys' = trace sys @ [MuLock] @ mid @ [MuUnlock] \<and>
           set mid \<subseteq> rewrite_events (filePath s)"
proof -
  have "rewrites_under_lock (MetadataStore_Delete id') s sys (map_option (AList.delete id') (images s))"
    using assms by (intro rewrites_under_lock_save) (simp_all add: Delete_unlocked)
  then obtain s' sys' r mid where
    *: "MetadataStore_Delete id' s sys = Some (s', sys', Returned r)" "\<not> locked s'"
       "images s' = map_option (AList.delete id') (images s)"
       "r = rewrite_error sys (filePath s) (map_option (AList.delete id') (images s))"
       "trace sys' = trace sys @ [MuLock] @ mid @ [MuUnlock]"
       "set mid \<subseteq> rewrite_events (filePath s)"
    unfolding rewrites_under_lock_def by blast
  show ?thesis
    by (rule exI [of _ s'], rule exI [of _ sys'], rule exI [of _ mid]) (simp add: *)
qed

lemma DeleteImage_metadata_step:
  assumes "\<not> locked (metadata w)"
    and "DeleteImage svc id' w =
           (case MetadataStore_Delete id' (metadata w) (sysG\<lparr>trace := trace (env w) @ before\<rparr>) of
              None \<Rightarrow> None
            | Some (m2, sys2, Panicked p) \<Rightarrow> Some (\<lparr>backend = b, metadata = m2, env = sys2\<rparr>, Panicked p)
            | Some (m2, sys2, Returned (Some err)) \<Rightarrow>
                Some (\<lparr>backend = b, metadata = m2, env = sys2\<rparr>,
                      Returned (Some (Errorf_w ''failed to delete metadata: '' err)))
            | Some (m2, sys2, Returned None) \<Rightarrow>
                Some (\<lparr>backend = b, metadata = m2, env = sys2\<rparr>, Returned None))"
    and "write_fault sysG = write_fault (env w)" "rename_fault sysG = rename_fault (env w)"
  shows "metadata_deleted w id' before b (DeleteImage svc id' w)"
proof -
  from Delete_outcome [OF assms(1), of id' "sysG\<lparr>trace := trace (env w) @ before\<rparr>"]
  obtain s' sys' mid where
    *: "MetadataStore_Delete id' (metadata w) (sysG\<lparr>trace := trace (env w) @ before\<rparr>) =
          Some (s', sys', Returned (rewrite_error (sysG\<lparr>trace := trace (env w) @ before\<rparr>)
                                     (filePath (metadata w)) (images s')))"
       "images s' = map_option (AList.delete id') (images (metadata w))" "\<not> locked s'"
       "trace sys' = trace (env w) @ before @ [MuLock] @ mid @ [MuUnlock]"
       "set mid \<subseteq> rewrite_events (filePath (metadata w))"
    by auto
  have re: "rewrite_error (sysG\<lparr>trace := trace (env w) @ before\<rparr>) (filePath (metadata w)) (images s') =
            rewrite_error (env w) (filePath (metadata w)) (images s')"
    using assms(3,4) by (intro rewrite_error_faults) simp_all
  show ?thesis
    unfolding metadata_deleted_def assms(2) *(1) re
    using *(2-5)
    by (cases "rewrite_error (env w) (filePath (metadata w)) (images s')") (auto simp add: Errorf_w_def)
qed

lemma World_of_simps [simp]:
  "backend (World_of m sys) = []" "metadata (World_of m sys) = m" "env (World_of m sys) = sys"
  by (simp_all add: World_of_def)

lemma resolved_photo: "resolved_storagePath photo = ''2024/12/a1.webp''"
  by (simp add: resolved_storagePath_def photo_def)

lemma resolved_legacy: "resolved_storagePath legacy_photo = []"
  by (simp add: resolved_storagePath_def legacy_photo_def photo_def)

lemma ext_photo: "filepath_Ext ''2024/12/a1.webp'' = ''.webp''"
  by (simp add: filepath_Ext_def)

text \<open>
  Claim C5, as amended. For a record that exists, with \<open>key\<close> its resolved storage key:
  when the key is empty or has none of the extensions \<open>.webp\<close>, \<open>.jpg\<close>, \<open>.jpeg\<close>,
  \<open>.png\<close>, the backend is not called and the record is removed from the table;
  otherwise the backend's \<open>Delete\<close> is called first, and when it succeeds or reports
  that the object does not exist the record is removed from the table after it, while any
  other error is returned as "failed to delete file: ..." with the table untouched.
  Where the record is removed, the operation returns success when the rewrite of the
  metadata file meets no error, and the error it meets as "failed to delete metadata:
  ..." otherwise.
\<close>

theorem DeleteImage_cases:
  assumes "\<not> locked (metadata w)"
    and "map_of (made (images (metadata w))) id' = Some (Some img)"
    and "key = resolved_storagePath img"
  shows "(key = [] \<or> filepath_Ext key \<notin> {''.webp'', ''.jpg'', ''.jpeg'', ''.png''} \<longrightarrow>
            metadata_deleted w id' [MuLock, MuUnlock] (backend w) (DeleteImage svc id' w)) \<and>
         (key \<noteq> [] \<and> filepath_Ext key \<in> {''.webp'', ''.jpg'', ''.jpeg'', ''.png''} \<longrightarrow>
            (\<forall>b1 dr. storage_Delete (storage svc) (backend w) key = (b1, dr) \<longrightarrow>
               (dr = None \<or> (\<exists>e. dr = Some e \<and> os_IsNotExist e) \<longrightarrow>
                  metadata_deleted w id' [MuLock, MuUnlock, StorageDelete key] b1 (DeleteImage svc id' w)) \<and>
               (\<forall>e. dr = Some e \<and> \<not> os_IsNotExist e \<longrightarrow>
                  DeleteImage svc id' w =
                    Some (\<lparr>backend = b1, metadata = metadata w,
                           env = (env w)\<lparr>trace := trace (env w) @ [MuLock, MuUnlock, StorageDelete key]\<rparr>\<rparr>,
                          Returned (Some (WrapError (''failed to delete file: '' @ Error e) e))))))"
proof (intro conjI impI allI)
  assume "key = [] \<or> filepath_Ext key \<notin> {''.webp'', ''.jpg'', ''.jpeg'', ''.png''}"
  then have skip: "key = [] \<or> key = ''/'' \<or> \<not> isValidStoragePath key"
    using skip_condition [of key] by blast
  show "metadata_deleted w id' [MuLock, MuUnlock] (backend w) (DeleteImage svc id' w)"
  proof (rule DeleteImage_metadata_step [OF assms(1), where sysG = "env w"])
    show "DeleteImage svc id' w =
           (case MetadataStore_Delete id' (metadata w) ((env w)\<lparr>trace := trace (env w) @ [MuLock, MuUnlock]\<rparr>) of
              None \<Rightarrow> None
            | Some (m2, sys2, Panicked p) \<Rightarrow>
                Some (\<lparr>backend = backend w, metadata = m2, env = sys2\<rparr>, Panicked p)
            | Some (m2, sys2, Returned (Some err)) \<Rightarrow>
                Some (\<lparr>backend = backend w, metadata = m2, env = sys2\<rparr>,
                      Returned (Some (Errorf_w ''failed to delete metadata: '' err)))
            | Some (m2, sys2, Returned None) \<Rightarrow>
                Some (\<lparr>backend = backend w, metadata = m2, env = sys2\<rparr>, Returned None))"
      using skip assms
      by (auto simp add: DeleteImage_def Get_unlocked Let_def split: option.splits outcome.splits)
  qed simp_all
next
  fix b1 dr
  assume valid: "key \<noteq> [] \<and> filepath_Ext key \<in> {''.webp'', ''.jpg'', ''.jpeg'', ''.png''}"
    and del: "storage_Delete (storage svc) (backend w) key = (b1, dr)"
  from valid have noskip: "\<not> (key = [] \<or> key = ''/'' \<or> \<not> isValidStoragePath key)"
    using skip_condition [of key] by blast
  {
    assume "dr = None \<or> (\<exists>e. dr = Some e \<and> os_IsNotExist e)"
    then have tol: "(case dr of Some err \<Rightarrow> if \<not> os_IsNotExist err then Some err else None | None \<Rightarrow> None) = None"
      by auto
    show "metadata_deleted w id' [MuLock, MuUnlock, StorageDelete key] b1 (DeleteImage svc id' w)"
    proof (rule DeleteImage_metadata_step [OF assms(1), where sysG = "env w"])
      show "DeleteImage svc id' w =
           (case MetadataStore_Delete id' (metadata w)
                   ((env w)\<lparr>trace := trace (env w) @ [MuLock, MuUnlock, StorageDelete key]\<rparr>) of
              None \<Rightarrow> None
            | Some (m2, sys2, Panicked p) \<Rightarrow> Some (\<lparr>backend = b1, metadata = m2, env = sys2\<rparr>, Panicked p)
            | Some (m2, sys2, Returned (Some err)) \<Rightarrow>
                Some (\<lparr>backend = b1, metadata = m2, env = sys2\<rparr>,
                      Returned (Some (Errorf_w ''failed to delete metadata: '' err)))
            | Some (m2, sys2, Returned None) \<Rightarrow>
                Some (\<lparr>backend = b1, metadata = m2, env = sys2\<rparr>, Returned None))"
        using noskip assms del tol
        by (simp add: DeleteImage_def Get_unlocked Let_def emit_def split: option.splits outcome.splits)
    qed simp_all
  }
  {
    fix e assume "dr = Some e \<and> \<not> os_IsNotExist e"
    then show "DeleteImage svc id' w =
                    Some (\<lparr>backend = b1, metadata = metadata w,
                           env = (env w)\<lparr>trace := trace (env w) @ [MuLock, MuUnlock, StorageDelete key]\<rparr>\<rparr>,
                          Returned (Some (WrapError (''failed to delete file: '' @ Error e) e)))"
      using noskip assms del
      by (simp add: DeleteImage_def Get_unlocked Let_def emit_def Errorf_w_def)
  }
qed

text \<open>
  A record with no key to resolve; a record whose object is already gone; a record whose
  object the backend refuses to delete.
\<close>

theorem DeleteImage_cases_witness:
  "metadata_deleted (World_of store_with_legacy empty_Sys) ''a1'' [MuLock, MuUnlock] []
     (DeleteImage local_service ''a1'' (World_of store_with_legacy empty_Sys)) \<and>
   metadata_deleted (World_of store_with_photo empty_Sys) ''a1''
     [MuLock, MuUnlock, StorageDelete ''2024/12/a1.webp''] []
     (DeleteImage local_service ''a1'' (World_of store_with_photo empty_Sys)) \<and>
   DeleteImage readonly_service ''a1'' (World_of store_with_photo empty_Sys) =
     Some (\<lparr>backend = [], metadata = store_with_photo,
            env = empty_Sys\<lparr>trace := trace empty_Sys @ [MuLock, MuUnlock, StorageDelete ''2024/12/a1.webp'']\<rparr>\<rparr>,
           Returned (Some (WrapError (''failed to delete file: '' @
                                        Error (PathError ''remove'' ''2024/12/a1.webp'' (Errno EROFS)))
                             (PathError ''remove'' ''2024/12/a1.webp'' (Errno EROFS)))))"
proof -
  have l1: "\<not> locked (metadata (World_of store_with_legacy empty_Sys))"
    and l2: "map_of (made (images (metadata (World_of store_with_legacy empty_Sys)))) ''a1'' =
               Some (Some legacy_photo)"
    by (simp_all add: store_with_legacy_def empty_store_def made_def)
  have p1: "\<not> locked (metadata (World_of store_with_photo empty_Sys))"
    and p2: "map_of (made (images (metadata (World_of store_with_photo empty_Sys)))) ''a1'' =
               Some (Some photo)"
    by (simp_all add: store_with_photo_def empty_store_def made_def)
  have absent: "storage_Delete (storage local_service) [] ''2024/12/a1.webp'' =
                  ([], Some (PathError ''remove'' ''./storage/images/2024/12/a1.webp'' ENOENT))"
    by (simp add: local_service_def service_with_def LocalStorage_def)
  have refused: "storage_Delete (storage readonly_service) [] ''2024/12/a1.webp'' =
                  ([], Some (PathError ''remove'' ''2024/12/a1.webp'' (Errno EROFS)))"
    by (simp add: readonly_service_def service_with_def ReadOnlyStorage_def)
  have "metadata_deleted (World_of store_with_legacy empty_Sys) ''a1'' [MuLock, MuUnlock] []
          (DeleteImage local_service ''a1'' (World_of store_with_legacy empty_Sys))"
    using DeleteImage_cases [OF l1 l2 resolved_legacy [symmetric], of local_service] by simp
  moreover
  have "metadata_deleted (World_of store_with_photo empty_Sys) ''a1''
          [MuLock, MuUnlock, StorageDelete ''2024/12/a1.webp''] []
          (DeleteImage local_service ''a1'' (World_of store_with_photo empty_Sys))"
    using DeleteImage_cases [OF p1 p2 resolved_photo [symmetric], of local_service] absent
    by (simp add: ext_photo)
  moreover
  have "DeleteImage readonly_service ''a1'' (World_of store_with_photo empty_Sys) =
     Some (\<lparr>backend = [], metadata = store_with_photo,
            env = empty_Sys\<lparr>trace := trace empty_Sys @ [MuLock, MuUnlock, StorageDelete ''2024/12/a1.webp'']\<rparr>\<rparr>,
           Returned (Some (WrapError (''failed to delete file: '' @
                                        Error (PathError ''remove'' ''2024/12/a1.webp'' (Errno EROFS)))
                             (PathError ''remove'' ''2024/12/a1.webp'' (Errno EROFS)))))"
    using DeleteImage_cases [OF p1 p2 resolved_photo [symmetric], of readonly_service] refused
    by (simp add: ext_photo)
  ultimately show ?thesis by blast
qed

text \<open>
  The claim as first stated fails: with no key to resolve and a full disk, the operation
  does not report success.
\<close>

theorem DeleteImage_reports_rewrite_error:
  "DeleteImage local_service ''a1'' (World_of store_with_legacy full_disk_Sys) =
     Some (\<lparr>backend = [], metadata = empty_store,
            env = full_disk_Sys\<lparr>files := [''./storage/images/metadata.json.tmp'' \<mapsto>
                                             BadSyntax ''unexpected end of JSON input''],
                                trace := [MuLock, MuUnlock, MuLock,
                                          OsWriteFile ''./storage/images/metadata.json.tmp'', MuUnlock]\<rparr>\<rparr>,
           Returned (Some (WrapError ''failed to delete metadata: write ./storage/images/metadata.json.tmp: no space left on device''
                             (PathError ''write'' ''./storage/images/metadata.json.tmp'' (Errno ENOSPC)))))"
proof -
  have l1: "\<not> locked store_with_legacy"
    and l2: "map_of (made (images store_with_legacy)) ''a1'' = Some (Some legacy_photo)"
    and l3: "map_option (AList.delete ''a1'') (images store_with_legacy) = Some []"
    and l4: "store_with_legacy\<lparr>images := Some []\<rparr> = empty_store"
    and l5: "filePath store_with_legacy = ''./storage/images/metadata.json''"
    by (simp_all add: store_with_legacy_def empty_store_def made_def)
  have m0: "json_MarshalIndent (Some []) = Inr (JsonTable [])"
    by (simp add: json_MarshalIndent_def)
  have sv: "saveLocked (store_with_legacy\<lparr>locked := True, images := Some []\<rparr>)
              (full_disk_Sys\<lparr>trace := [MuLock, MuUnlock, MuLock]\<rparr>) =
            (full_disk_Sys\<lparr>files := [''./storage/images/metadata.json.tmp'' \<mapsto>
                                        BadSyntax ''unexpected end of JSON input''],
                           trace := [MuLock, MuUnlock, MuLock,
                                     OsWriteFile ''./storage/images/metadata.json.tmp'']\<rparr>,
             Some (PathError ''write'' ''./storage/images/metadata.json.tmp'' (Errno ENOSPC)))"
    by (simp add: saveLocked_write_fault [where f = ENOSPC] m0 l5 open_fault_def
        full_disk_Sys_def empty_Sys_def)
  have tr: "trace full_disk_Sys = []" by (simp add: full_disk_Sys_def empty_Sys_def)
  show ?thesis
    by (simp add: DeleteImage_def Get_unlocked Delete_unlocked l1 l2 l3 l4 resolved_legacy tr sv
        emit_def Errorf_w_def)
qed

section \<open>Upload: failure of the metadata commit\<close>

lemma Process_keeps:
  "filter is_log (trace (fst (Process L p data m sys))) = filter is_log (trace sys)"
  "write_fault (fst (Process L p data m sys)) = write_fault sys"
  "rename_fault (fst (Process L p data m sys)) = rename_fault sys"
  "files (fst (Process L p data m sys)) = files sys"
  by (simp_all add: Process_def decodeImage_def encodeWebP_def emit_def Let_def
      split: sum.splits prod.splits)

lemma rewrite_error_Process:
  "rewrite_error (fst (Process L p data m sys)) path tbl = rewrite_error sys path tbl"
  by (rule rewrite_error_faults) (rule Process_keeps)+

lemma Add_outcome:
  assumes "\<not> locked s" "images s = Some t"
  shows "\<exists>s' sys' mid.
           MetadataStore_Add (Some img) s sys =
             Some (s', sys', Returned (rewrite_error sys (filePath s)
                                         (Some (AList.update (ID img) (Some img) t)))) \<and>
           images s' = Some (AList.update (ID img) (Some img) t) \<and> \<not> locked s' \<and>
           trace sys' = trace sys @ [MuLock] @ mid @ [MuUnlock] \<and>
           set mid \<subseteq> rewrite_events (filePath s)"
proof -
  have "rewrites_under_lock (MetadataStore_Add (Some img)) s sys
          (Some (AList.update (ID img) (Some img) t))"
    using assms by (intro rewrites_under_lock_save) (simp_all add: Add_unlocked)
  then obtain s' sys' r mid where
    *: "MetadataStore_Add (Some img) s sys = Some (s', sys', Returned r)" "\<not> locked s'"
       "images s' = Some (AList.update (ID img) (Some img) t)"
       "r = rewrite_error sys (filePath s) (Some (AList.update (ID img) (Some img) t))"
       "trace sys' = trace sys @ [MuLock] @ mid @ [MuUnlock]"
       "set mid \<subseteq> rewrite_events (filePath s)"
    unfolding rewrites_under_lock_def by blast
  show ?thesis
    by (rule exI [of _ s'], rule exI [of _ sys'], rule exI [of _ mid]) (simp add: *)
qed

lemma filter_is_log_rewrite: "set mid \<subseteq> rewrite_events p \<Longrightarrow> filter is_log mid = []"
  by (induction mid) (auto simp add: rewrite_events_def)

lemma detect_jpeg12: "detectMimeFromHeader jpeg12 = ''image/jpeg''"
  by (simp add: detectMimeFromHeader_def jpeg12_def)

lemma key_noon: "fmt_d (Year noon) = ''2024''" "fmt_02d (Month noon) = ''12''"
  by (simp_all add: noon_def fmt_d_def fmt_02d_def nat_digits.simps digit_char_def)

lemma Process_jpeg12:
  "Process grid_Libs (NewImageProcessor 75) jpeg12 ''image/jpeg'' sys =
     (sys\<lparr>trace := trace sys @ [Decode ''jpeg'', ExifDecode, EncodeWebP]\<rparr>,
      Inr \<lparr>pr_Data = [75, 10, 20], pr_Width = 2, pr_Height = 1, pr_Format = ''webp''\<rparr>)"
proof -
  have dec: "jpeg_Decode grid_Libs jpeg12 = Inr [[10, 20]]"
    by (simp add: grid_Libs_def two_pixels_at_def jpeg12_def)
  have fx: "fixOrientation grid_Libs jpeg12 [[10, 20]] = [[10, 20]]"
    by (simp add: fixOrientation_def grid_Libs_def jpeg12_def)
  show ?thesis
    unfolding Process_jpeg [OF dec] fx
    by (simp add: encode_outcome_def grid_Libs_def NewImageProcessor_def grid_Dx_def emit_def)
qed

lemma keeping_service_simps:
  "processor keeping_service = NewImageProcessor 75"
  "AllowedTypes (cfg_Image (config keeping_service)) = [''image/jpeg'', ''image/png'', ''image/webp'']"
  "MaxSize (cfg_Image (config keeping_service)) = 10485760"
  "storage_Save (storage keeping_service) st key c = (AList.update key c st, Inr (''/images/'' @ key))"
  "storage_Delete (storage keeping_service) st key = (st, Some (PathError ''remove'' key (Errno EACCES)))"
  by (simp_all add: keeping_service_def service_with_def DefaultConfig_def KeepingStorage_def)

text \<open>
  Claim C4, as amended. When processing and \<open>Save\<close> have succeeded and the rewrite of
  the metadata file with the new record meets the error \<open>e\<close>, \<open>Upload\<close> calls the
  backend's \<open>Delete\<close> on the key it has just saved, drops what \<open>Delete\<close> returns, and
  returns \<open>e\<close> wrapped as "failed to save metadata: ...". After \<open>Save\<close> it has called
  nothing but the rewrite under the mutex and that \<open>Delete\<close>: nothing is logged.
\<close>

theorem Upload_metadata_failure:
  assumes "io_ReadAll file = (data, None)"
    and "ValidateMimeType (detectMimeFromHeader data) (AllowedTypes (cfg_Image (config svc)))"
    and "\<not> int (length data) > MaxSize (cfg_Image (config svc))"
    and "Process L (processor svc) data (detectMimeFromHeader data) (env w) = (sys1, Inr result)"
    and "key = fmt_d (Year now) @ ''/'' @ fmt_02d (Month now) @ ''/'' @ uuid @ ''.webp''"
    and "storage_Save (storage svc) (backend w) key (pr_Data result) = (b1, Inr url)"
    and "\<not> locked (metadata w)"
    and "images (metadata w) = Some t"
    and "img = \<lparr>ID = uuid, URL = url, OriginalFormat = mimeTypeToFormat (detectMimeFromHeader data),
               OriginalSize = originalSize, ProcessedSize = int (length (pr_Data result)),
               Width = pr_Width result, Height = pr_Height result, CreatedAt = now,
               Filename = uuid @ ''.webp'', StoragePath = key\<rparr>"
    and "rewrite_error (env w) (filePath (metadata w)) (Some (AList.update uuid (Some img) t)) = Some e"
  shows "\<exists>w' mid.
           Upload L svc file originalSize now uuid w =
             Some (w', Returned (Inl (WrapError (''failed to save metadata: '' @ Error e) e))) \<and>
           backend w' = fst (storage_Delete (storage svc) b1 key) \<and>
           trace (env w') = trace sys1 @ [StorageSave key, MuLock] @ mid @ [MuUnlock, StorageDelete key] \<and>
           set mid \<subseteq> rewrite_events (filePath (metadata w)) \<and>
           filter is_log (trace (env w')) = filter is_log (trace (env w))"
proof -
  have s1: "sys1 = fst (Process L (processor svc) data (detectMimeFromHeader data) (env w))"
    by (simp add: assms(4))
  have nl: "filter is_log (trace sys1) = filter is_log (trace (env w))"
    unfolding s1 by (rule Process_keeps)
  have id: "ID img = uuid" by (simp add: assms(9))
  have re: "rewrite_error (emit (StorageSave key) sys1) (filePath (metadata w))
              (Some (AList.update uuid (Some img) t)) = Some e"
    unfolding s1 using assms(10) by (simp add: rewrite_error_Process)
  from Add_outcome [OF assms(7,8), of img "emit (StorageSave key) sys1"]
  obtain m1 sys2 mid where
    add: "MetadataStore_Add (Some img) (metadata w) (emit (StorageSave key) sys1) =
            Some (m1, sys2, Returned (Some e))"
    and tr: "trace sys2 = trace (emit (StorageSave key) sys1) @ [MuLock] @ mid @ [MuUnlock]"
    and mid: "set mid \<subseteq> rewrite_events (filePath (metadata w))"
    unfolding id re by blast
  obtain b2 dropped where del: "storage_Delete (storage svc) b1 key = (b2, dropped)"
    by (cases "storage_Delete (storage svc) b1 key")
  have key': "fmt_d (Year now) @ ''/'' @ fmt_02d (Month now) @ ''/'' @ uuid @ ''.webp'' = key"
    by (simp add: assms(5))
  have up: "Upload L svc file originalSize now uuid w =
              Some (\<lparr>backend = b2, metadata = m1, env = emit (StorageDelete key) sys2\<rparr>,
                    Returned (Inl (WrapError (''failed to save metadata: '' @ Error e) e)))"
    unfolding Upload_def Let_def key'
    using assms(1-4,6) add [unfolded assms(9)] del by (simp add: Errorf_w_def)
  show ?thesis
    unfolding up using tr mid nl del filter_is_log_rewrite [OF mid]
    by (simp add: emit_def)
qed

text \<open>A JPEG upload on a full disk, over a backend that stores and refuses to delete.\<close>

theorem Upload_metadata_failure_witness:
  "\<exists>w' mid.
     Upload grid_Libs keeping_service (Reader jpeg12 None) 12 noon ''a1'' (World_of empty_store full_disk_Sys) =
       Some (w', Returned (Inl (WrapError
          (''failed to save metadata: '' @
             Error (PathError ''write'' ''./storage/images/metadata.json.tmp'' (Errno ENOSPC)))
          (PathError ''write'' ''./storage/images/metadata.json.tmp'' (Errno ENOSPC))))) \<and>
     backend w' = [(''2024/12/a1.webp'', [75, 10, 20])] \<and>
     trace (env w') =
       [Decode ''jpeg'', ExifDecode, EncodeWebP] @ [StorageSave ''2024/12/a1.webp'', MuLock] @ mid @
       [MuUnlock, StorageDelete ''2024/12/a1.webp''] \<and>
     set mid \<subseteq> rewrite_events ''./storage/images/metadata.json'' \<and>
     filter is_log (trace (env w')) = []"
proof -
  have h1: "io_ReadAll (Reader jpeg12 None) = (jpeg12, None)" by simp
  have h2: "ValidateMimeType (detectMimeFromHeader jpeg12) (AllowedTypes (cfg_Image (config keeping_service)))"
    by (simp add: detect_jpeg12 keeping_service_simps)
  have h3: "\<not> int (length jpeg12) > MaxSize (cfg_Image (config keeping_service))"
    by (simp add: keeping_service_simps jpeg12_def)
  have tr: "trace full_disk_Sys = []" by (simp add: full_disk_Sys_def empty_Sys_def)
  have h4: "Process grid_Libs (processor keeping_service) jpeg12 (detectMimeFromHeader jpeg12)
              (env (World_of empty_store full_disk_Sys)) =
            (full_disk_Sys\<lparr>trace := [Decode ''jpeg'', ExifDecode, EncodeWebP]\<rparr>,
             Inr \<lparr>pr_Data = [75, 10, 20], pr_Width = 2, pr_Height = 1, pr_Format = ''webp''\<rparr>)"
    by (simp add: detect_jpeg12 keeping_service_simps Process_jpeg12 tr)
  have h5: "''2024/12/a1.webp'' = fmt_d (Year noon) @ ''/'' @ fmt_02d (Month noon) @ ''/'' @ ''a1'' @ ''.webp''"
    by (simp add: key_noon)
  have h6: "storage_Save (storage keeping_service) (backend (World_of empty_store full_disk_Sys))
              ''2024/12/a1.webp''
              (pr_Data \<lparr>pr_Data = [75, 10, 20], pr_Width = 2, pr_Height = 1, pr_Format = ''webp''\<rparr>) =
            ([(''2024/12/a1.webp'', [75, 10, 20])], Inr ''/images/2024/12/a1.webp'')"
    by (simp add: keeping_service_simps)
  have h7: "\<not> locked (metadata (World_of empty_store full_disk_Sys))"
    by (simp add: empty_store_def)
  have h8: "images (metadata (World_of empty_store full_disk_Sys)) = Some []"
    by (simp add: empty_store_def)
  have h9: "photo = \<lparr>ID = ''a1'', URL = ''/images/2024/12/a1.webp'',
               OriginalFormat = mimeTypeToFormat (detectMimeFromHeader jpeg12),
               OriginalSize = 12,
               ProcessedSize = int (length (pr_Data \<lparr>pr_Data = [75, 10, 20], pr_Width = 2, pr_Height = 1,
                                                     pr_Format = ''webp''\<rparr>)),
               Width = pr_Width \<lparr>pr_Data = [75, 10, 20], pr_Width = 2, pr_Height = 1, pr_Format = ''webp''\<rparr>,
               Height = pr_Height \<lparr>pr_Data = [75, 10, 20], pr_Width = 2, pr_Height = 1, pr_Format = ''webp''\<rparr>,
               CreatedAt = noon, Filename = ''a1'' @ ''.webp'', StoragePath = ''2024/12/a1.webp''\<rparr>"
    by (simp add: photo_def detect_jpeg12)
  have h10: "rewrite_error (env (World_of empty_store full_disk_Sys))
               (filePath (metadata (World_of empty_store full_disk_Sys)))
               (Some (AList.update ''a1'' (Some photo) [])) =
             Some (PathError ''write'' ''./storage/images/metadata.json.tmp'' (Errno ENOSPC))"
    by (simp add: rewrite_error_def marshal_photo full_disk_Sys_def empty_Sys_def empty_store_def
        open_fault_def)
  from Upload_metadata_failure [OF h1 h2 h3 h4 h5 h6 h7 h8 h9 h10]
  show ?thesis
    by (simp add: keeping_service_simps tr empty_store_def)
qed

text \<open>
  The claim as first stated fails. In the run above the backend's \<open>Delete\<close> fails; the
  trace of the whole run ends with that call and holds no call of \<open>log.Printf\<close>.
\<close>

theorem compensating_delete_not_logged:
  "Upload grid_Libs keeping_service (Reader jpeg12 None) 12 noon ''a1'' (World_of empty_store full_disk_Sys) =
     Some (\<lparr>backend = [(''2024/12/a1.webp'', [75, 10, 20])], metadata = store_with_photo,
            env = full_disk_Sys\<lparr>files := [''./storage/images/metadata.json.tmp'' \<mapsto>
                                             BadSyntax ''unexpected end of JSON input''],
                    trace :=
                    [Decode ''jpeg'', ExifDecode, EncodeWebP, StorageSave ''2024/12/a1.webp'',
                     MuLock, OsWriteFile ''./storage/images/metadata.json.tmp'', MuUnlock,
                     StorageDelete ''2024/12/a1.webp'']\<rparr>\<rparr>,
           Returned (Inl (WrapError ''failed to save metadata: write ./storage/images/metadata.json.tmp: no space left on device''
                            (PathError ''write'' ''./storage/images/metadata.json.tmp'' (Errno ENOSPC))))) \<and>
   storage_Delete (storage keeping_service) [(''2024/12/a1.webp'', [75, 10, 20])] ''2024/12/a1.webp'' =
     ([(''2024/12/a1.webp'', [75, 10, 20])], Some (PathError ''remove'' ''2024/12/a1.webp'' (Errno EACCES))) \<and>
   filter is_log
     [Decode ''jpeg'', ExifDecode, EncodeWebP, StorageSave ''2024/12/a1.webp'',
      MuLock, OsWriteFile ''./storage/images/metadata.json.tmp'', MuUnlock,
      StorageDelete ''2024/12/a1.webp''] = []"
proof -
  have len: "length jpeg12 = 12" by (simp add: jpeg12_def)
  have ph: "\<lparr>ID = ''a1'', URL = ''/images/2024/12/a1.webp'', OriginalFormat = ''jpeg'',
            OriginalSize = 12, ProcessedSize = 3, Width = 2, Height = 1, CreatedAt = noon,
            Filename = ''a1.webp'', StoragePath = ''2024/12/a1.webp''\<rparr> = photo"
    by (simp add: photo_def)
  have st: "empty_store\<lparr>images := Some [(''a1'', Some photo)]\<rparr> = store_with_photo"
    by (simp add: store_with_photo_def)
  have e: "\<not> locked empty_store" "images empty_store = Some []"
    "filePath empty_store = ''./storage/images/metadata.json''"
    by (simp_all add: empty_store_def)
  have fd: "write_fault full_disk_Sys = (\<lambda>p. Some ENOSPC)" "trace full_disk_Sys = []"
    "files full_disk_Sys = Map.empty"
    by (simp_all add: full_disk_Sys_def empty_Sys_def)
  have sv: "saveLocked (empty_store\<lparr>locked := True, images := Some [(''a1'', Some photo)]\<rparr>)
              (full_disk_Sys\<lparr>trace := [Decode ''jpeg'', ExifDecode, EncodeWebP, StorageSave ''2024/12/a1.webp'', MuLock]\<rparr>) =
            (full_disk_Sys\<lparr>files := [''./storage/images/metadata.json.tmp'' \<mapsto>
                                        BadSyntax ''unexpected end of JSON input''],
                           trace := [Decode ''jpeg'', ExifDecode, EncodeWebP, StorageSave ''2024/12/a1.webp'', MuLock,
                                       OsWriteFile ''./storage/images/metadata.json.tmp'']\<rparr>,
             Some (PathError ''write'' ''./storage/images/metadata.json.tmp'' (Errno ENOSPC)))"
    by (simp add: saveLocked_write_fault [where f = ENOSPC] marshal_photo e fd open_fault_def)
  have id: "ID photo = ''a1''" by (simp add: photo_def)
  show ?thesis
    by (simp add: Upload_def detect_jpeg12 keeping_service_simps len Process_jpeg12 key_noon Let_def ph
        Add_unlocked [OF e(1,2)] fd emit_def id sv st Errorf_w_def)
qed

section \<open>ListImages\<close>

lemma List_unlocked:
  "\<not> locked s \<Longrightarrow>
   MetadataStore_List s sys =
     Some (s, sys\<lparr>trace := trace sys @ [MuLock, MuUnlock]\<rparr>,
           case copy_all (made (images s)) of
             Panicked p \<Rightarrow> Panicked p
           | Returned imgs \<Rightarrow> Returned (sort_Slice imgs))"
  by (simp add: MetadataStore_List_def with_mu_def emit_def unlocked_again)

lemma wrap64_id: "- (2 ^ 63) \<le> x \<Longrightarrow> x < 2 ^ 63 \<Longrightarrow> wrap64 x = x"
  by (simp add: wrap64_def)

lemma ceil_pages:
  assumes "0 \<le> (t::int)" "0 < ps"
  shows "(if t mod ps > 0 then t div ps + 1 else t div ps) = (t + ps - 1) div ps"
proof (cases "t mod ps = 0")
  case True
  then obtain k where k: "t = ps * k" by auto
  have "(ps * k + (ps - 1)) div ps = k"
    using assms(2) by (simp add: div_mult_self4 [of ps k "ps - 1"] div_pos_pos_trivial)
  then show ?thesis using True k assms by (simp add: algebra_simps)
next
  case False
  then have pos: "0 < t mod ps" using assms(2) pos_mod_sign [of ps t] by linarith
  have lt: "t mod ps < ps" using assms(2) by simp
  have "t + ps - 1 = ps * (t div ps + 1) + (t mod ps - 1)"
    by (simp add: algebra_simps)
  then have "(t + ps - 1) div ps = (ps * (t div ps + 1) + (t mod ps - 1)) div ps"
    by (rule arg_cong)
  also have "\<dots> = t div ps + 1"
  proof -
    have "0 \<le> t mod ps - 1" "t mod ps - 1 < ps" using pos lt by linarith+
    then have "(t mod ps - 1) div ps = 0" by (rule div_pos_pos_trivial)
    then show ?thesis using assms(2) by simp
  qed
  finally show ?thesis using pos by simp
qed

lemma ListImages_in_range:
  assumes "\<not> locked (metadata w)"
    and pg: "page = (if page0 < 1 then 1 else page0)"
    and sz: "ps = (if pageSize0 < 1 \<or> pageSize0 > 100 then 20 else pageSize0)"
    and rng: "page * ps < 2 ^ 63"
    and cp: "copy_all (made (images (metadata w))) = Returned imgs"
    and all: "all = sort_Slice imgs"
    and len: "int (length all) < 2 ^ 63"
  shows "ListImages svc page0 pageSize0 w =
           Some (w\<lparr>env := (env w)\<lparr>trace := trace (env w) @ [MuLock, MuUnlock]\<rparr>\<rparr>,
                 Returned \<lparr>Items = map to_item (window ((page - 1) * ps) (min (page * ps) (int (length all))) all),
                      Total = int (length all), Page = page, PageSize = ps,
                      TotalPages = (int (length all) + ps - 1) div ps\<rparr>)"
proof -
  let ?n = "int (length all)" and ?st = "(page - 1) * ps"
  have p1: "1 \<le> page" and s1: "1 \<le> ps" "ps \<le> 100" using pg sz by auto
  have n0: "0 \<le> ?n" by simp
  have st0: "0 \<le> ?st" using p1 s1 by simp
  have ste: "?st + ps = page * ps" by (simp add: algebra_simps)
  have st_lt: "?st < 2 ^ 63" using rng ste s1 by linarith
  have w1: "wrap64 ?st = ?st"
    using st0 st_lt by (simp add: wrap64_id)
  have w2: "wrap64 (?st + ps) = page * ps"
    using st0 s1 rng ste by (simp add: wrap64_id)
  have dv: "0 \<le> ?n div ps" using s1 by (simp add: pos_imp_zdiv_nonneg_iff)
  have dle: "?n div ps \<le> ?n" using s1 zdiv_mono2 [of ?n 1 ps] by simp
  have q: "go_quot ?n ps = ?n div ps"
  proof -
    have "wrap64 (?n div ps) = ?n div ps" using dv dle len by (simp add: wrap64_id)
    moreover have "sgn ?n * sgn ps * (\<bar>?n\<bar> div \<bar>ps\<bar>) = ?n div ps"
      using s1 by (cases "?n = 0") (simp_all add: sgn_if)
    ultimately show ?thesis by (simp add: go_quot_def)
  qed
  have r: "go_rem ?n ps = ?n mod ps"
    using s1 by (cases "?n = 0") (simp_all add: go_rem_def sgn_if)
  have tp1: "wrap64 (?n div ps + 1) = ?n div ps + 1" if "?n mod ps > 0"
  proof -
    have "?n div ps * 1 \<le> ?n div ps * ps" using dv s1 by (intro mult_left_mono) auto
    moreover have "?n div ps * ps + ?n mod ps = ?n" by simp
    ultimately have "?n div ps < ?n" using that by linarith
    then show ?thesis using dv len by (simp add: wrap64_id)
  qed
  have tot: "(if go_rem ?n ps > 0 then wrap64 (go_quot ?n ps + 1) else go_quot ?n ps) = (?n + ps - 1) div ps"
  proof (cases "?n mod ps > 0")
    case True
    then show ?thesis using ceil_pages [of ?n ps] s1 tp1 by (simp add: q r)
  next
    case False
    then show ?thesis using ceil_pages [of ?n ps] s1 by (simp add: q r)
  qed
  have unf: "ListImages svc page0 pageSize0 w =
     (let start = (if ?st \<ge> ?n then ?n else ?st);
          end' = (if page * ps > ?n then ?n else page * ps)
      in if wrap64 (end' - start) < 0
         then Some (w\<lparr>env := (env w)\<lparr>trace := trace (env w) @ [MuLock, MuUnlock]\<rparr>\<rparr>, Panicked MakesliceCapOutOfRange)
         else if \<not> (0 \<le> start \<and> start \<le> end' \<and> end' \<le> ?n)
         then Some (w\<lparr>env := (env w)\<lparr>trace := trace (env w) @ [MuLock, MuUnlock]\<rparr>\<rparr>, Panicked SliceBoundsOutOfRange)
         else Some (w\<lparr>env := (env w)\<lparr>trace := trace (env w) @ [MuLock, MuUnlock]\<rparr>\<rparr>,
                    Returned \<lparr>Items = map to_item (take (nat (end' - start)) (drop (nat start) all)),
                         Total = ?n, Page = page, PageSize = ps,
                         TotalPages = (?n + ps - 1) div ps\<rparr>))"
    unfolding ListImages_def List_unlocked [OF assms(1)] cp outcome.case all [symmetric]
      pg [symmetric] sz [symmetric]
    by (simp only: Let_def option.case prod.case outcome.case w1 w2 tot) simp
  consider (past) "?n \<le> ?st" | (last) "?st < ?n" "?n < page * ps" | (full) "page * ps \<le> ?n"
    by linarith
  then show ?thesis
  proof cases
    case past
    then have "?n < page * ps" using ste s1 by linarith
    with past show ?thesis
      unfolding unf by (simp add: Let_def window_def wrap64_def)
  next
    case last
    have "wrap64 (?n - ?st) = ?n - ?st" using last st0 len by (simp add: wrap64_id)
    with last st0 show ?thesis
      unfolding unf by (simp add: Let_def window_def min_def)
  next
    case full
    have lt: "?st \<le> page * ps" using ste s1 by linarith
    have "wrap64 (page * ps - ?st) = page * ps - ?st" using lt rng st0 by (simp add: wrap64_id)
    moreover have "\<not> ?n \<le> ?st" using full ste s1 by linarith
    ultimately show ?thesis
      using full st0 lt unfolding unf by (simp add: Let_def window_def min_def)
  qed
qed

lemma set_insert_newest_first [simp]: "set (insert_newest_first x ys) = insert x (set ys)"
  by (induction ys) auto

lemma length_insert_newest_first [simp]: "length (insert_newest_first x ys) = Suc (length ys)"
  by (induction ys) auto

lemma length_sort_Slice [simp]: "length (sort_Slice xs) = length xs"
  by (induction xs) (simp_all add: sort_Slice_def)

lemma sorted_insert_newest_first:
  "sorted_wrt (\<lambda>a b. \<not> After (CreatedAt b) (CreatedAt a)) ys \<Longrightarrow>
   sorted_wrt (\<lambda>a b. \<not> After (CreatedAt b) (CreatedAt a)) (insert_newest_first x ys)"
  by (induction ys) (auto simp add: After_def)

lemma sort_Slice_newest_first:
  "sorted_wrt (\<lambda>a b. \<not> After (CreatedAt b) (CreatedAt a)) (sort_Slice xs)"
  by (induction xs) (simp_all add: sort_Slice_def sorted_insert_newest_first)

lemma ListImages_25:
  assumes "\<not> locked (metadata w)"
    and cp: "copy_all (made (images (metadata w))) = Returned imgs"
    and all: "all = sort_Slice imgs"
    and len: "length all = 25"
  shows "ListImages svc 1 10 w =
           Some (w\<lparr>env := (env w)\<lparr>trace := trace (env w) @ [MuLock, MuUnlock]\<rparr>\<rparr>,
                 Returned \<lparr>Items = map to_item (take 10 all), Total = 25, Page = 1, PageSize = 10,
                      TotalPages = 3\<rparr>)"
    and "ListImages svc 3 10 w =
           Some (w\<lparr>env := (env w)\<lparr>trace := trace (env w) @ [MuLock, MuUnlock]\<rparr>\<rparr>,
                 Returned \<lparr>Items = map to_item (drop 20 all), Total = 25, Page = 3, PageSize = 10,
                      TotalPages = 3\<rparr>)"
  using ListImages_in_range [OF assms(1) _ _ _ cp all, of 1 1 10 10 svc]
        ListImages_in_range [OF assms(1) _ _ _ cp all, of 3 3 10 10 svc] len
  by (simp_all add: window_def)

text \<open>
  Claim C7. As long as \<open>page * pageSize\<close> stays below \<open>2 ^ 63\<close> the claim holds
  (\<open>ListImages_in_range\<close>, \<open>ListImages_25\<close> and \<open>sort_Slice_newest_first\<close> above).
  Beyond it the product \<open>(page - 1) * pageSize\<close> wraps around. With one record in the
  store, page 4611686018427387905 of size 20 starts at 0 after the wrap and returns the
  record, where the window of the claim is empty; page 9223372036854775807 of size 20
  starts at -40 and the slice expression panics.
\<close>

theorem ListImages_page_overflow:
  "ListImages local_service 4611686018427387905 20 (World_of store_with_photo empty_Sys) =
     Some (World_of store_with_photo (empty_Sys\<lparr>trace := [MuLock, MuUnlock]\<rparr>),
           Returned \<lparr>Items = [to_item photo], Total = 1, Page = 4611686018427387905, PageSize = 20,
                      TotalPages = 1\<rparr>) \<and>
   window ((4611686018427387905 - 1) * 20) (min (4611686018427387905 * 20) 1) [photo] = [] \<and>
   ListImages local_service 9223372036854775807 20 (World_of store_with_photo empty_Sys) =
     Some (World_of store_with_photo (empty_Sys\<lparr>trace := [MuLock, MuUnlock]\<rparr>),
           Panicked SliceBoundsOutOfRange)"
proof -
  have u: "\<not> locked store_with_photo"
    and im: "copy_all (made (images store_with_photo)) = Returned [photo]"
    by (simp_all add: store_with_photo_def empty_store_def made_def)
  have tr: "trace empty_Sys = []" by (simp add: empty_Sys_def)
  have w: "World_of store_with_photo empty_Sys\<lparr>metadata := store_with_photo,
             env := empty_Sys\<lparr>trace := [MuLock, MuUnlock]\<rparr>\<rparr> =
           World_of store_with_photo (empty_Sys\<lparr>trace := [MuLock, MuUnlock]\<rparr>)"
    by (simp add: World_of_def)
  have a: "wrap64 92233720368547758080 = 0" "wrap64 20 = 20" "wrap64 1 = 1" "wrap64 0 = 0"
    "wrap64 184467440737095516120 = - 40" "wrap64 (- 20) = - 20"
    by (simp_all add: wrap64_def)
  have q: "go_quot 1 20 = 0" "go_rem 1 20 = 1"
    by (simp_all add: go_quot_def go_rem_def wrap64_def)
  show ?thesis
    by (simp add: ListImages_def List_unlocked u im tr w a q sort_Slice_def Let_def window_def)
qed

section \<open>Errors and their kinds\<close>

lemma Process_errors:
  "Process L p data m sys = (sys', Inl e) \<Longrightarrow>
   message_error [''failed to decode image: '', ''failed to encode webp: ''] e"
  by (auto simp add: message_error_def Process_def decodeImage_def encodeWebP_def Let_def Errorf_w_def
      split: sum.splits prod.splits if_splits)

lemma GetImage_errors:
  "GetImage svc id' w = Some (w', Returned (Inl e)) \<Longrightarrow> message_error [''image not found: ''] e"
  by (auto simp add: message_error_def GetImage_def Errorf_s_def
      split: option.splits prod.splits outcome.splits)

lemma DeleteImage_errors:
  "DeleteImage svc id' w = Some (w', Returned (Some e)) \<Longrightarrow>
   message_error [''image not found: '', ''failed to delete file: '', ''failed to delete metadata: ''] e"
  by (auto simp add: message_error_def DeleteImage_def Errorf_s_def Errorf_w_def Let_def
      split: option.splits prod.splits outcome.splits if_splits)

lemma Upload_errors:
  "Upload L svc file sz now uuid w = Some (w', Returned (Inl e)) \<Longrightarrow>
   message_error [''failed to read file: '', ''invalid file type: '', ''file too large: '',
                  ''failed to process image: '', ''failed to save file: '',
                  ''failed to save metadata: ''] e"
  by (auto simp add: message_error_def Upload_def Errorf_s_def Errorf_w_def Let_def
      split: option.splits prod.splits sum.splits outcome.splits if_splits)

lemma Upload_junk9:
  "Upload grid_Libs (service_with SmallConfig ReadOnlyStorage) (Reader junk9 None) 9 noon ''0b5c'' empty_World =
     Some (empty_World, Returned (Inl (ErrorString ''invalid file type: application/octet-stream'')))"
  by (simp add: Upload_def service_with_def SmallConfig_def DefaultConfig_def junk9_def
      detectMimeFromHeader_def Errorf_s_def)

lemma Upload_jpeg12_small:
  "Upload grid_Libs (service_with SmallConfig ReadOnlyStorage) (Reader jpeg12 None) 12 noon ''0b5c'' empty_World =
     Some (empty_World, Returned (Inl (ErrorString ''file too large: 12 bytes (max: 8)'')))"
  by (simp add: Upload_def service_with_def SmallConfig_def DefaultConfig_def jpeg12_def
      detectMimeFromHeader_def fmt_d_def nat_digits.simps digit_char_def)

lemma GetImage_missing:
  "GetImage local_service ''zz'' empty_World =
     Some (empty_World\<lparr>env := empty_Sys\<lparr>trace := [MuLock, MuUnlock]\<rparr>\<rparr>,
           Returned (Inl (ErrorString ''image not found: zz'')))"
  by (simp add: GetImage_def MetadataStore_Get_def with_mu_def emit_def empty_World_def
      empty_store_def empty_Sys_def Errorf_s_def made_def)

lemma DeleteImage_missing:
  "DeleteImage local_service ''zz'' empty_World =
     Some (empty_World\<lparr>env := empty_Sys\<lparr>trace := [MuLock, MuUnlock]\<rparr>\<rparr>,
           Returned (Some (ErrorString ''image not found: zz'')))"
  by (simp add: DeleteImage_def MetadataStore_Get_def with_mu_def emit_def empty_World_def
      empty_store_def empty_Sys_def Errorf_s_def made_def)

lemma Process_truncated:
  "Process grid_Libs (NewImageProcessor 75) [0xFF, 0xD8, 0xFF, 0xE0] ''image/jpeg'' empty_Sys =
     (empty_Sys\<lparr>trace := [Decode ''jpeg'']\<rparr>,
      Inl (WrapError ''failed to decode image: unexpected EOF'' (ErrorString ''unexpected EOF'')))"
  by (simp add: Process_def decodeImage_def grid_Libs_def two_pixels_at_def emit_def empty_Sys_def
      Errorf_w_def)

text \<open>
  Claim C1, as amended. Every error that \<open>Upload\<close>, \<open>GetImage\<close>, \<open>DeleteImage\<close> and
  \<open>Process\<close> return is a message, alone or wrapped around its cause, and carries no
  kind beside it: the kind of the failure is the fixed prefix the message starts with,
  and a caller finds it by reading the message.
\<close>

theorem errors_are_messages:
  "(Upload L svc file sz now uuid w = Some (w1, Returned (Inl e1)) \<longrightarrow>
      message_error [''failed to read file: '', ''invalid file type: '', ''file too large: '',
                     ''failed to process image: '', ''failed to save file: '',
                     ''failed to save metadata: ''] e1) \<and>
   (GetImage svc id' w = Some (w2, Returned (Inl e2)) \<longrightarrow> message_error [''image not found: ''] e2) \<and>
   (DeleteImage svc id' w = Some (w3, Returned (Some e3)) \<longrightarrow>
      message_error [''image not found: '', ''failed to delete file: '', ''failed to delete metadata: ''] e3) \<and>
   (Process L p data m sys = (sys', Inl e4) \<longrightarrow>
      message_error [''failed to decode image: '', ''failed to encode webp: ''] e4)"
  by (intro conjI impI)
    (erule Upload_errors, erule GetImage_errors, erule DeleteImage_errors, erule Process_errors)

text \<open>
  An upload of no known type, an identifier that is not in the store, and a JPEG that
  ends after its header.
\<close>

theorem errors_are_messages_witness:
  "message_error [''failed to read file: '', ''invalid file type: '', ''file too large: '',
                  ''failed to process image: '', ''failed to save file: '',
                  ''failed to save metadata: '']
     (ErrorString ''invalid file type: application/octet-stream'') \<and>
   message_error [''image not found: ''] (ErrorString ''image not found: zz'') \<and>
   message_error [''image not found: '', ''failed to delete file: '', ''failed to delete metadata: '']
     (ErrorString ''image not found: zz'') \<and>
   message_error [''failed to decode image: '', ''failed to encode webp: '']
     (WrapError ''failed to decode image: unexpected EOF'' (ErrorString ''unexpected EOF''))"
  using errors_are_messages [THEN conjunct1, THEN mp, OF Upload_junk9]
        errors_are_messages [THEN conjunct2, THEN conjunct1, THEN mp, OF GetImage_missing]
        errors_are_messages [THEN conjunct2, THEN conjunct2, THEN conjunct1, THEN mp, OF DeleteImage_missing]
        errors_are_messages [THEN conjunct2, THEN conjunct2, THEN conjunct2, THEN mp, OF Process_truncated]
  by blast

text \<open>
  The claim as first stated fails. The errors of an upload of a type that is not allowed
  and of an upload that is too large are told apart by the handler (codes 1001 and
  1002), and they are the same value once their messages are set aside: only the
  message tells the two kinds apart.
\<close>

theorem kind_only_in_message:
  "Upload grid_Libs (service_with SmallConfig ReadOnlyStorage) (Reader junk9 None) 9 noon ''0b5c'' empty_World =
     Some (empty_World, Returned (Inl (ErrorString ''invalid file type: application/octet-stream''))) \<and>
   Upload grid_Libs (service_with SmallConfig ReadOnlyStorage) (Reader jpeg12 None) 12 noon ''0b5c'' empty_World =
     Some (empty_World, Returned (Inl (ErrorString ''file too large: 12 bytes (max: 8)''))) \<and>
   upload_error_code (ErrorString ''invalid file type: application/octet-stream'') = 1001 \<and>
   upload_error_code (ErrorString ''file too large: 12 bytes (max: 8)'') = 1002 \<and>
   erase_messages (ErrorString ''invalid file type: application/octet-stream'') =
     erase_messages (ErrorString ''file too large: 12 bytes (max: 8)'')"
proof -
  have c1: "contains ''invalid file type: application/octet-stream'' ''invalid file type''"
    by (simp add: contains_def containsImpl_def containsImpl_from.simps)
  have c2: "\<not> contains ''file too large: 12 bytes (max: 8)'' ''invalid file type''"
    by (simp add: contains_def containsImpl_def containsImpl_from.simps)
  have c3: "contains ''file too large: 12 bytes (max: 8)'' ''file too large''"
    by (simp add: contains_def containsImpl_def containsImpl_from.simps)
  show ?thesis
    by (simp add: Upload_junk9 Upload_jpeg12_small upload_error_code_def c1 c2 c3
        CodeInvalidFileType_def CodeFileTooLarge_def)
qed

section \<open>The table keeps one entry per key\<close>

text \<open>
  \<open>Count\<close> is the length of the association list, which is the size of the Go map as
  long as no key occurs twice. Every operation that changes the table keeps it so.
\<close>

lemma distinct_store_entries:
  "distinct (map fst t) \<Longrightarrow> distinct (map fst (store_entries es t))"
proof -
  have "distinct (map fst t) \<Longrightarrow>
        distinct (map fst (foldl (\<lambda>t e. AList.update (fst e)
                                           (map_option (\<lambda>img. img\<lparr>StoragePath := []\<rparr>) (snd e)) t) t es))"
    by (induction es arbitrary: t) (auto simp add: distinct_update)
  then show "distinct (map fst t) \<Longrightarrow> distinct (map fst (store_entries es t))"
    by (simp add: store_entries_def)
qed

lemma Add_keeps_distinct:
  assumes "\<not> locked s" "distinct (map fst (made (images s)))"
    and "MetadataStore_Add img s sys = Some (s', sys', r)"
  shows "distinct (map fst (made (images s')))"
proof (cases img)
  case None
  then show ?thesis using assms by (simp add: Add_nil_pointer)
next
  case (Some i)
  then show ?thesis
    using assms
    by (cases "images s") (auto simp add: Add_unlocked Add_nil_table distinct_update made_def)
qed

lemma Delete_keeps_distinct:
  assumes "\<not> locked s" "distinct (map fst (made (images s)))"
    and "MetadataStore_Delete id' s sys = Some (s', sys', r)"
  shows "distinct (map fst (made (images s')))"
  using assms
  by (cases "images s") (auto simp add: Delete_unlocked distinct_delete made_def)

lemma distinct_json_Unmarshal:
  "json_Unmarshal d tbl = (tbl', r) \<Longrightarrow> distinct (map fst (made tbl)) \<Longrightarrow>
   distinct (map fst (made tbl'))"
  by (cases d) (auto simp add: distinct_store_entries made_def split: if_splits option.splits)

lemma NewMetadataStore_distinct:
  "NewMetadataStore join basePath sys = Some (sys', Inr s) \<Longrightarrow> distinct (map fst (made (images s)))"
  by (auto simp add: NewMetadataStore_def load_fresh loadLocked_def os_ReadFile_def Let_def made_def
      split: option.splits sum.splits prod.splits if_splits
      dest: distinct_json_Unmarshal)

end
